theory Spec2Isabelle
  imports Main "HOL-Library.Word"
begin

unbundle bit_operations_syntax

section \<open>Values of the Go program\<close>

text \<open>
  The program is \<^verbatim>\<open>src/main.go\<close>: \<^verbatim>\<open>run\<close> downloads an archive from an object store,
  digests it with SHA-256, obtains the expected digest (the \<^verbatim>\<open>-sha\<close> flag or the companion
  \<^verbatim>\<open>.sha256\<close> object), compares both and saves the archive.

  A Go \<^verbatim>\<open>[]byte\<close> is a list of 8-bit words, a Go \<^verbatim>\<open>string\<close> is a \<open>string\<close> (HOL's \<open>char\<close> is
  one byte). \<open>string_of_bytes\<close> is the conversion \<^verbatim>\<open>string(p)\<close>, \<open>bytes_of_string\<close> is
  \<^verbatim>\<open>[]byte(s)\<close>; both keep every byte.
\<close>

type_synonym byte = "8 word"
type_synonym bytes = "byte list"
type_synonym uint32 = "32 word"

definition string_of_bytes :: "bytes \<Rightarrow> string" where
  "string_of_bytes p = map (\<lambda>b. char_of (unat b)) p"

definition bytes_of_string :: "string \<Rightarrow> bytes" where
  "bytes_of_string s = map of_char s"

text \<open>
  Go's \<^verbatim>\<open>error\<close> values of this program: the package variable \<^verbatim>\<open>errChecksumMismatch\<close>, the
  values made by \<^verbatim>\<open>fmt.Errorf\<close> (with their message), \<^verbatim>\<open>io.ErrShortWrite\<close>, and the errors the
  minio client and the operating system hand back (\<open>LibError\<close>, with their message). The
  variable \<^verbatim>\<open>errChecksumMismatch\<close> is private to the package, so no library returns it: what
  the surroundings answer on a failure is a message, which the model wraps in \<open>LibError\<close>.
\<close>

datatype error =
    errChecksumMismatch
  | Errorf string
  | ErrShortWrite
  | LibError string

text \<open>\<^verbatim>\<open>run\<close> returns an \<^verbatim>\<open>error\<close> (\<open>None\<close> is \<^verbatim>\<open>nil\<close>) or the goroutine panics.\<close>

datatype outcome = Returns "error option" | Panics_index_out_of_range

record runOps =
  app :: string
  tag :: string
  endpoint :: string
  bucket :: string
  id' :: string
  key :: string
  os :: string
  arch :: string
  sha :: string

section \<open>SHA-256 and hexadecimal encoding (crypto/sha256, encoding/hex)\<close>

text \<open>
  \<^verbatim>\<open>crypto/sha256\<close> computes the SHA-256 of FIPS 180-4: the message is padded with the
  byte 0x80, zero bytes up to 56 modulo 64, and the bit length as a 64-bit big-endian number;
  every 64-byte block is expanded to 64 words and run through 64 rounds on eight 32-bit words.
\<close>

definition K256 :: "uint32 list" where
  "K256 =
    [0x428A2F98, 0x71374491, 0xB5C0FBCF, 0xE9B5DBA5, 0x3956C25B, 0x59F111F1, 0x923F82A4, 0xAB1C5ED5,
     0xD807AA98, 0x12835B01, 0x243185BE, 0x550C7DC3, 0x72BE5D74, 0x80DEB1FE, 0x9BDC06A7, 0xC19BF174,
     0xE49B69C1, 0xEFBE4786, 0x0FC19DC6, 0x240CA1CC, 0x2DE92C6F, 0x4A7484AA, 0x5CB0A9DC, 0x76F988DA,
     0x983E5152, 0xA831C66D, 0xB00327C8, 0xBF597FC7, 0xC6E00BF3, 0xD5A79147, 0x06CA6351, 0x14292967,
     0x27B70A85, 0x2E1B2138, 0x4D2C6DFC, 0x53380D13, 0x650A7354, 0x766A0ABB, 0x81C2C92E, 0x92722C85,
     0xA2BFE8A1, 0xA81A664B, 0xC24B8B70, 0xC76C51A3, 0xD192E819, 0xD6990624, 0xF40E3585, 0x106AA070,
     0x19A4C116, 0x1E376C08, 0x2748774C, 0x34B0BCB5, 0x391C0CB3, 0x4ED8AA4A, 0x5B9CCA4F, 0x682E6FF3,
     0x748F82EE, 0x78A5636F, 0x84C87814, 0x8CC70208, 0x90BEFFFA, 0xA4506CEB, 0xBEF9A3F7, 0xC67178F2]"

type_synonym hstate =
  "uint32 \<times> uint32 \<times> uint32 \<times> uint32 \<times> uint32 \<times> uint32 \<times> uint32 \<times> uint32"

definition init256 :: hstate where
  "init256 =
    (0x6A09E667, 0xBB67AE85, 0x3C6EF372, 0xA54FF53A, 0x510E527F, 0x9B05688C, 0x1F83D9AB, 0x5BE0CD19)"

definition rotr :: "nat \<Rightarrow> uint32 \<Rightarrow> uint32" where
  "rotr n x = drop_bit n x OR push_bit (32 - n) x"

definition be32 :: "bytes \<Rightarrow> uint32" where
  "be32 p =
     push_bit 24 (ucast (p ! 0)) OR push_bit 16 (ucast (p ! 1)) OR push_bit 8 (ucast (p ! 2))
       OR ucast (p ! 3)"

primrec extend :: "nat \<Rightarrow> uint32 list \<Rightarrow> uint32 list" where
  "extend 0 w = w"
| "extend (Suc n) w =
    (let i = length w;
         v1 = w ! (i - 2);
         t1 = rotr 17 v1 XOR rotr 19 v1 XOR drop_bit 10 v1;
         v2 = w ! (i - 15);
         t2 = rotr 7 v2 XOR rotr 18 v2 XOR drop_bit 3 v2
     in extend n (w @ [t1 + w ! (i - 7) + t2 + w ! (i - 16)]))"

definition schedule :: "bytes \<Rightarrow> uint32 list" where
  "schedule p = extend 48 (map (\<lambda>i. be32 (drop (4 * i) p)) [0..<16])"

fun round256 :: "uint32 \<times> uint32 \<Rightarrow> hstate \<Rightarrow> hstate" where
  "round256 (k, w) (a, b, c, d, e, f, g, h) =
    (let t1 = h + (rotr 6 e XOR rotr 11 e XOR rotr 25 e) + ((e AND f) XOR (NOT e AND g)) + k + w;
         t2 = (rotr 2 a XOR rotr 13 a XOR rotr 22 a) + ((a AND b) XOR (a AND c) XOR (b AND c))
     in (t1 + t2, a, b, c, d + t1, e, f, g))"

fun add256 :: "hstate \<Rightarrow> hstate \<Rightarrow> hstate" where
  "add256 (a, b, c, d, e, f, g, h) (a', b', c', d', e', f', g', h') =
     (a + a', b + b', c + c', d + d', e + e', f + f', g + g', h + h')"

definition block :: "bytes \<Rightarrow> hstate \<Rightarrow> hstate" where
  "block p hs = add256 hs (fold round256 (zip K256 (schedule p)) hs)"

definition put64 :: "64 word \<Rightarrow> bytes" where
  "put64 n = map (\<lambda>i. ucast (drop_bit (8 * (7 - i)) n)) [0..<8]"

definition pad :: "bytes \<Rightarrow> bytes" where
  "pad m =
    (let l = length m mod 64
     in m @ [0x80] @ replicate (if l < 56 then 55 - l else 119 - l) 0
          @ put64 (push_bit 3 (of_nat (length m))))"

definition put32 :: "uint32 \<Rightarrow> bytes" where
  "put32 x = [ucast (drop_bit 24 x), ucast (drop_bit 16 x), ucast (drop_bit 8 x), ucast x]"

fun sum_bytes :: "hstate \<Rightarrow> bytes" where
  "sum_bytes (a, b, c, d, e, f, g, h) =
     put32 a @ put32 b @ put32 c @ put32 d @ put32 e @ put32 f @ put32 g @ put32 h"

definition Sum256 :: "bytes \<Rightarrow> bytes" where
  "Sum256 m =
     (let p = pad m
      in sum_bytes (fold (\<lambda>i. block (take 64 (drop (64 * i) p))) [0..<length p div 64] init256))"

text \<open>
  A \<^verbatim>\<open>hash.Hash\<close> made by \<^verbatim>\<open>sha256.New()\<close>: \<^verbatim>\<open>Write\<close> takes every byte and never fails,
  \<^verbatim>\<open>Sum(b)\<close> appends the digest of all the bytes written so far to \<^verbatim>\<open>b\<close>.
\<close>

datatype Hash = Hash (written: bytes)

definition sha256_New :: Hash where
  "sha256_New = Hash []"

definition Hash_Write :: "bytes \<Rightarrow> Hash \<Rightarrow> (nat \<times> error option) \<times> Hash" where
  "Hash_Write p h = ((length p, None), Hash (written h @ p))"

definition Hash_Sum :: "Hash \<Rightarrow> bytes \<Rightarrow> bytes" where
  "Hash_Sum h b = b @ Sum256 (written h)"

text \<open>\<^verbatim>\<open>hex.EncodeToString\<close>: two characters of the table for every byte, high nibble first.\<close>

definition hextable :: string where
  "hextable = ''0123456789abcdef''"

definition EncodeToString :: "bytes \<Rightarrow> string" where
  "EncodeToString src =
     concat (map (\<lambda>v. [hextable ! unat (drop_bit 4 v), hextable ! unat (v AND 0x0f)]) src)"

section \<open>bytes.Buffer and io.Copy\<close>

text \<open>
  A \<^verbatim>\<open>*bytes.Buffer\<close> is modelled by its unread bytes; it is mutable, so every operation
  returns the buffer it leaves behind. \<^verbatim>\<open>ReadFrom\<close> appends what a stream delivers;
  \<^verbatim>\<open>WriteTo\<close> hands the unread bytes to a writer in one \<^verbatim>\<open>Write\<close> and \<^bold>\<open>drains\<close> the buffer
  by what the writer took (the library's \<^verbatim>\<open>b.off += m\<close>, then \<^verbatim>\<open>b.Reset()\<close>); with nothing
  unread it calls no \<^verbatim>\<open>Write\<close> at all. The library panics when a writer reports more bytes
  than it was given; the two writers of this program (\<open>Hash_Write\<close>, \<open>File_Write\<close>) never do.

  A \<^verbatim>\<open>*minio.Object\<close> is a stream: reading it delivers \<open>content\<close> and then ends with
  \<^verbatim>\<open>io.EOF\<close> (\<open>failure = None\<close>) or with an error (its message).
\<close>

datatype Object = Object (content: bytes) (failure: "string option")

datatype Buffer = Buffer (unread: bytes)

definition NewBuffer :: "bytes \<Rightarrow> Buffer" where
  "NewBuffer p = Buffer p"

definition Buffer_Len :: "Buffer \<Rightarrow> nat" where
  "Buffer_Len b = length (unread b)"

definition Buffer_String :: "Buffer \<Rightarrow> string" where
  "Buffer_String b = string_of_bytes (unread b)"

definition Buffer_ReadFrom :: "Buffer \<Rightarrow> Object \<Rightarrow> (nat \<times> error option) \<times> Buffer" where
  "Buffer_ReadFrom b r =
     ((length (content r), map_option LibError (failure r)), Buffer (unread b @ content r))"

definition Buffer_WriteTo ::
  "(bytes \<Rightarrow> 'w \<Rightarrow> (nat \<times> error option) \<times> 'w) \<Rightarrow> Buffer \<Rightarrow> 'w
     \<Rightarrow> (nat \<times> error option) \<times> Buffer \<times> 'w" where
  "Buffer_WriteTo Write b w =
    (let nBytes = Buffer_Len b in
     if 0 < nBytes then
       (case Write (unread b) w of
          ((m, e), w') \<Rightarrow>
            (let b' = Buffer (drop m (unread b)) in
             case e of
               Some err \<Rightarrow> ((m, Some err), b', w')
             | None \<Rightarrow>
                 if m \<noteq> nBytes then ((m, Some ErrShortWrite), b', w')
                 else ((m, None), Buffer [], w')))
     else ((0, None), Buffer [], w))"

text \<open>
  \<^verbatim>\<open>io.Copy(dst, src)\<close> uses \<^verbatim>\<open>src.WriteTo(dst)\<close> when the source has that method (a
  \<^verbatim>\<open>*bytes.Buffer\<close> has), and otherwise \<^verbatim>\<open>dst.ReadFrom(src)\<close> when the destination has that
  one (a \<^verbatim>\<open>*bytes.Buffer\<close> has; a \<^verbatim>\<open>*minio.Object\<close> has no \<^verbatim>\<open>WriteTo\<close>).
\<close>

definition io_Copy_from :: "Buffer \<Rightarrow> Object \<Rightarrow> (nat \<times> error option) \<times> Buffer" where
  "io_Copy_from dst src = Buffer_ReadFrom dst src"

definition io_Copy ::
  "(bytes \<Rightarrow> 'w \<Rightarrow> (nat \<times> error option) \<times> 'w) \<Rightarrow> 'w \<Rightarrow> Buffer
     \<Rightarrow> (nat \<times> error option) \<times> Buffer \<times> 'w" where
  "io_Copy Write dst src = Buffer_WriteTo Write src dst"

section \<open>generateSha256\<close>

text \<open>
  \<^verbatim>\<open>generateSha256(buf io.Reader)\<close>; the reader \<^verbatim>\<open>run\<close> passes is the archive's
  \<^verbatim>\<open>*bytes.Buffer\<close>, which the copy into the hash leaves drained.
\<close>

definition generateSha256 :: "Buffer \<Rightarrow> (string \<times> error option) \<times> Buffer" where
  "generateSha256 buf =
    (let h = sha256_New in
     case io_Copy Hash_Write h buf of
       ((_, Some err), buf', h') \<Rightarrow> (('''', Some err), buf')
     | ((_, None), buf', h') \<Rightarrow> ((EncodeToString (Hash_Sum h' []), None), buf'))"

section \<open>strings.Fields\<close>

text \<open>
  \<^verbatim>\<open>strings.Fields\<close> splits a string around runs of white space as \<^verbatim>\<open>unicode.IsSpace\<close>
  defines it, reading the string as UTF-8. \<open>white_space\<close> lists the UTF-8 encodings of those
  code points: U+0009 to U+000D, U+0020, U+0085, U+00A0, U+1680, U+2000 to U+200A, U+2028,
  U+2029, U+202F, U+205F, U+3000. No encoding is a prefix of another, and none starts with a
  continuation byte, so a string starts with a white-space rune exactly when it starts with one
  of these byte sequences; \<open>space_width\<close> is the number of bytes of that rune, 0 when there is
  none. The loop is that of \<^verbatim>\<open>FieldsFunc\<close>: \<open>cur\<close> is the field being read (empty when
  outside a field).
\<close>

definition white_space :: "string list" where
  "white_space =
    [[CHR 0x09], [CHR 0x0A], [CHR 0x0B], [CHR 0x0C], [CHR 0x0D], [CHR 0x20],
     [CHR 0xC2, CHR 0x85], [CHR 0xC2, CHR 0xA0],
     [CHR 0xE1, CHR 0x9A, CHR 0x80],
     [CHR 0xE2, CHR 0x80, CHR 0x80], [CHR 0xE2, CHR 0x80, CHR 0x81],
     [CHR 0xE2, CHR 0x80, CHR 0x82], [CHR 0xE2, CHR 0x80, CHR 0x83],
     [CHR 0xE2, CHR 0x80, CHR 0x84], [CHR 0xE2, CHR 0x80, CHR 0x85],
     [CHR 0xE2, CHR 0x80, CHR 0x86], [CHR 0xE2, CHR 0x80, CHR 0x87],
     [CHR 0xE2, CHR 0x80, CHR 0x88], [CHR 0xE2, CHR 0x80, CHR 0x89],
     [CHR 0xE2, CHR 0x80, CHR 0x8A], [CHR 0xE2, CHR 0x80, CHR 0xA8],
     [CHR 0xE2, CHR 0x80, CHR 0xA9], [CHR 0xE2, CHR 0x80, CHR 0xAF],
     [CHR 0xE2, CHR 0x81, CHR 0x9F],
     [CHR 0xE3, CHR 0x80, CHR 0x80]]"

definition space_width :: "string \<Rightarrow> nat" where
  "space_width s =
     (case filter (\<lambda>p. take (length p) s = p) white_space of
        [] \<Rightarrow> 0
      | p # _ \<Rightarrow> length p)"

function Fields_loop :: "string \<Rightarrow> string \<Rightarrow> string list" where
  "Fields_loop cur s =
     (if s = [] then (if cur = [] then [] else [cur])
      else if 0 < space_width s
        then (if cur = [] then [] else [cur]) @ Fields_loop [] (drop (space_width s) s)
      else Fields_loop (cur @ [hd s]) (tl s))"
  by pat_completeness auto
termination
  by (relation "measure (\<lambda>(cur, s). length s)") auto

definition Fields :: "string \<Rightarrow> string list" where
  "Fields s = Fields_loop [] s"

section \<open>The object store, the file system and the output\<close>

text \<open>
  The effects of a run are kept in a \<open>world\<close>: the local files, and the \<open>trace\<close> of what the
  run did in order (a line printed, a \<^verbatim>\<open>GetObject\<close> request to the store, an \<^verbatim>\<open>os.Create\<close>,
  a \<^verbatim>\<open>Write\<close> to a file). What the surroundings answer is the \<open>env\<close>: the client
  \<^verbatim>\<open>minio.New\<close> makes (or its error), and whether the file system refuses a creation or a
  write (a refused write takes the first \<open>n\<close> bytes).
\<close>

datatype Client = Client (GetObject: "string \<Rightarrow> string \<Rightarrow> string + Object")

datatype File = File (name: string)

datatype event =
    Stdout string
  | StoreGet string string
  | FsCreate string
  | FsWrite string bytes

record world =
  trace :: "event list"
  files :: "string \<Rightarrow> bytes option"

record env =
  minio_New :: "string \<Rightarrow> string \<Rightarrow> string \<Rightarrow> bool \<Rightarrow> string + Client"
  create_refused :: "string \<Rightarrow> string option"
  write_refused :: "string \<Rightarrow> bytes \<Rightarrow> (nat \<times> string) option"

definition emit :: "event \<Rightarrow> world \<Rightarrow> world" where
  "emit e w = w\<lparr>trace := trace w @ [e]\<rparr>"

definition Printf :: "string \<Rightarrow> world \<Rightarrow> world" where
  "Printf s w = emit (Stdout s) w"

definition os_Create :: "env \<Rightarrow> string \<Rightarrow> world \<Rightarrow> (error + File) \<times> world" where
  "os_Create env n w =
     (let w' = emit (FsCreate n) w in
      case create_refused env n of
        Some msg \<Rightarrow> (Inl (LibError msg), w')
      | None \<Rightarrow> (Inr (File n), w'\<lparr>files := (files w')(n \<mapsto> [])\<rparr>))"

definition File_Write :: "env \<Rightarrow> File \<Rightarrow> bytes \<Rightarrow> world \<Rightarrow> (nat \<times> error option) \<times> world" where
  "File_Write env f p w =
     (let w' = emit (FsWrite (name f) p) w;
          old = (case files w' (name f) of None \<Rightarrow> [] | Some c \<Rightarrow> c) in
      case write_refused env (name f) p of
        Some (n, msg) \<Rightarrow>
          ((min n (length p), Some (LibError msg)),
           w'\<lparr>files := (files w')(name f \<mapsto> old @ take n p)\<rparr>)
      | None \<Rightarrow> ((length p, None), w'\<lparr>files := (files w')(name f \<mapsto> old @ p)\<rparr>))"

section \<open>download and run\<close>

definition download :: "Client \<Rightarrow> string \<Rightarrow> string \<Rightarrow> world \<Rightarrow> (error + Buffer) \<times> world" where
  "download client bucket' fileName' w =
     (let w' = emit (StoreGet bucket' fileName') w in
      case GetObject client bucket' fileName' of
        Inl msg \<Rightarrow> (Inl (LibError msg), w')
      | Inr file \<Rightarrow>
          (let buf = NewBuffer [] in
           case io_Copy_from buf file of
             ((_, Some err), _) \<Rightarrow> (Inl err, w')
           | ((_, None), buf') \<Rightarrow> (Inr buf', w')))"

text \<open>The local variables \<^verbatim>\<open>fileName\<close>, \<^verbatim>\<open>tarKey\<close> and \<^verbatim>\<open>checksumKey\<close> of \<^verbatim>\<open>run\<close>.\<close>

definition fileName :: "runOps \<Rightarrow> string" where
  "fileName opts = app opts @ ''_'' @ tag opts @ ''_'' @ os opts @ ''_'' @ arch opts"

definition tarKey :: "runOps \<Rightarrow> string" where
  "tarKey opts = fileName opts @ ''.tar.gz''"

definition checksumKey :: "runOps \<Rightarrow> string" where
  "checksumKey opts = fileName opts @ ''.sha256''"

text \<open>
  \<^verbatim>\<open>run\<close>, statement by statement. The block under \<^verbatim>\<open>if opts.sha == ""\<close> either leaves
  the function (\<open>Inl\<close>: the download failed, or indexing the empty result of
  \<^verbatim>\<open>strings.Fields\<close> with \<^verbatim>\<open>[0]\<close> panicked) or goes on with \<^verbatim>\<open>opts.sha\<close> assigned (\<open>Inr\<close>).
  The archive buffer that reaches \<^verbatim>\<open>io.Copy(archiveFile, archive)\<close> is the one
  \<^verbatim>\<open>generateSha256\<close> left behind.
\<close>

definition run :: "env \<Rightarrow> runOps \<Rightarrow> world \<Rightarrow> outcome \<times> world" where
  "run env opts w0 =
    (case minio_New env (endpoint opts) (id' opts) (key opts) True of
       Inl msg \<Rightarrow> (Returns (Some (LibError msg)), w0)
     | Inr minioClient \<Rightarrow>
        (let w1 = Printf (''## Downloading Archive: '' @ bucket opts @ ''/'' @ tarKey opts
                            @ ''\<newline>'') w0 in
         case download minioClient (bucket opts) (tarKey opts) w1 of
           (Inl err, w2) \<Rightarrow>
             (Returns (Some (Errorf (''Can't download archive from '' @ bucket opts @ ''/''
                                      @ tarKey opts))), w2)
         | (Inr archive, w2) \<Rightarrow>
            (let w3 = Printf ''## Done\<newline>\<newline>'' w2;
                 w4 = Printf ''## Generating Checksum\<newline>'' w3 in
             case generateSha256 archive of
               ((_, Some err), archive') \<Rightarrow> (Returns (Some err), w4)
             | ((localChecksum, None), archive') \<Rightarrow>
                (let w5 = Printf ''## Done\<newline>\<newline>'' w4 in
                 case (if sha opts = '''' then
                         (let w6 = Printf (''## Downloading Checksum: '' @ bucket opts @ ''/''
                                             @ checksumKey opts @ ''\<newline>'') w5 in
                          case download minioClient (bucket opts) (checksumKey opts) w6 of
                            (Inl err, w7) \<Rightarrow>
                              (Inl (Returns (Some (Errorf (''Can't download checksum from ''
                                      @ bucket opts @ ''/'' @ checksumKey opts)))), w7)
                          | (Inr remoteSha256, w7) \<Rightarrow>
                              (case Fields (Buffer_String remoteSha256) of
                                 [] \<Rightarrow> (Inl Panics_index_out_of_range, w7)
                               | field0 # _ \<Rightarrow>
                                   (Inr (opts\<lparr>sha := field0\<rparr>),
                                    Printf ''## Done\<newline>\<newline>'' w7)))
                       else (Inr opts, w5)) of
                   (Inl out, w8) \<Rightarrow> (out, w8)
                 | (Inr opts', w8) \<Rightarrow>
                    (let w9 = Printf ''## Comparing checksums\<newline>'' w8 in
                     if sha opts' \<noteq> localChecksum
                     then (Returns (Some errChecksumMismatch), Printf ''## FAIL\<newline>\<newline>'' w9)
                     else
                       (let w10 = Printf ''## PASS\<newline>\<newline>'' w9;
                            w11 = Printf (''## Saving Archive to '' @ tarKey opts @ ''\<newline>'') w10 in
                        case os_Create env (tarKey opts) w11 of
                          (Inl err, w12) \<Rightarrow> (Returns (Some err), w12)
                        | (Inr archiveFile, w12) \<Rightarrow>
                           (case io_Copy (File_Write env archiveFile) w12 archive' of
                              ((_, Some err), _, w13) \<Rightarrow> (Returns (Some err), w13)
                            | ((_, None), _, w13) \<Rightarrow>
                                (Returns None, Printf ''## Done\<newline>'' w13))))))))"

section \<open>Observations on a run\<close>

text \<open>
  What the theorems read off a run. \<open>fetched\<close> is what \<^verbatim>\<open>download\<close> brings back from the
  store: the bytes of the object when the request succeeds and the stream is read to its end
  without an error, and nothing otherwise. \<open>events\<close> are the trace entries a run adds;
  \<open>is_store_call\<close> picks the requests to the store and \<open>is_fs_call\<close> the calls to the file
  system out of them. \<open>archive_trace\<close> and \<open>checksum_trace\<close> are the entries of a successful
  archive download with its digest, and of a successful checksum download.
\<close>

definition fetched :: "Client \<Rightarrow> string \<Rightarrow> string \<Rightarrow> bytes option" where
  "fetched client bucket' fileName' =
     (case GetObject client bucket' fileName' of
        Inl err \<Rightarrow> None
      | Inr file \<Rightarrow> (case failure file of None \<Rightarrow> Some (content file) | Some err \<Rightarrow> None))"

definition events :: "env \<Rightarrow> runOps \<Rightarrow> world \<Rightarrow> event list" where
  "events env opts w = drop (length (trace w)) (trace (snd (run env opts w)))"

fun is_store_call :: "event \<Rightarrow> bool" where
  "is_store_call (StoreGet b k) = True"
| "is_store_call e = False"

fun is_fs_call :: "event \<Rightarrow> bool" where
  "is_fs_call (FsCreate n) = True"
| "is_fs_call (FsWrite n p) = True"
| "is_fs_call e = False"

definition archive_trace :: "runOps \<Rightarrow> event list" where
  "archive_trace opts =
     [Stdout (''## Downloading Archive: '' @ bucket opts @ ''/'' @ tarKey opts @ ''\<newline>''),
      StoreGet (bucket opts) (tarKey opts),
      Stdout ''## Done\<newline>\<newline>'',
      Stdout ''## Generating Checksum\<newline>'',
      Stdout ''## Done\<newline>\<newline>'']"

definition checksum_trace :: "runOps \<Rightarrow> event list" where
  "checksum_trace opts =
     [Stdout (''## Downloading Checksum: '' @ bucket opts @ ''/'' @ checksumKey opts @ ''\<newline>''),
      StoreGet (bucket opts) (checksumKey opts),
      Stdout ''## Done\<newline>\<newline>'']"

section \<open>A fake store for concrete runs\<close>

text \<open>
  The scenario of the specification: application \<^verbatim>\<open>svc\<close>, tag \<^verbatim>\<open>v1.0.0\<close>, \<^verbatim>\<open>linux\<close>,
  \<^verbatim>\<open>amd64\<close>; the store holds the archive \<^verbatim>\<open>hello\<close> and a checksum object with the given
  text. \<open>fake_client\<close> answers from a list of objects, \<open>fake_env\<close> never refuses a file
  operation, \<open>world0\<close> has no file and an empty trace.
\<close>

definition fake_client :: "((string \<times> string) \<times> bytes) list \<Rightarrow> Client" where
  "fake_client objs =
     Client (\<lambda>b k. case map_of objs (b, k) of
                     None \<Rightarrow> Inl ''The specified key does not exist.''
                   | Some d \<Rightarrow> Inr (Object d None))"

definition fake_env :: "((string \<times> string) \<times> bytes) list \<Rightarrow> env" where
  "fake_env objs =
     \<lparr>minio_New = (\<lambda>e i k s. Inr (fake_client objs)),
      create_refused = (\<lambda>n. None),
      write_refused = (\<lambda>n p. None)\<rparr>"

definition svc_opts :: runOps where
  "svc_opts =
     \<lparr>app = ''svc'', tag = ''v1.0.0'', endpoint = ''s3.amazonaws.com'', bucket = ''releases'',
      id' = ''AKIDEXAMPLE'', key = ''secret'', os = ''linux'', arch = ''amd64'', sha = ''''\<rparr>"

definition world0 :: world where
  "world0 = \<lparr>trace = [], files = Map.empty\<rparr>"

definition svc_store :: "string \<Rightarrow> ((string \<times> string) \<times> bytes) list" where
  "svc_store checksum_text =
     [((''releases'', ''svc_v1.0.0_linux_amd64.tar.gz''), bytes_of_string ''hello''),
      ((''releases'', ''svc_v1.0.0_linux_amd64.sha256''), bytes_of_string checksum_text)]"

text \<open>
  \<open>svc_checksum_text\<close> is the checksum object as \<^verbatim>\<open>sha256sum\<close> writes it for the archive
  \<^verbatim>\<open>hello\<close>; \<open>archive_only_store\<close> has no checksum object; \<open>refusing_env\<close> refuses every
  \<^verbatim>\<open>os.Create\<close>; in \<open>world_old\<close> an older archive is on disk.
\<close>

definition svc_checksum_text :: string where
  "svc_checksum_text =
     ''2cf24dba5fb0a30e26e83b2ac5b9e29e1b161e5c1fa7425e73043362938b9824  svc_v1.0.0_linux_amd64.tar.gz\<newline>''"

definition archive_only_store :: "((string \<times> string) \<times> bytes) list" where
  "archive_only_store =
     [((''releases'', ''svc_v1.0.0_linux_amd64.tar.gz''), bytes_of_string ''hello'')]"

definition refusing_env :: "((string \<times> string) \<times> bytes) list \<Rightarrow> env" where
  "refusing_env objs = (fake_env objs)\<lparr>create_refused := (\<lambda>n. Some ''permission denied'')\<rparr>"

definition world_old :: world where
  "world_old =
     \<lparr>trace = [], files = [''svc_v1.0.0_linux_amd64.tar.gz'' \<mapsto> bytes_of_string ''old'']\<rparr>"

section \<open>The first token, in the words of the specification\<close>

text \<open>
  The specification speaks of the first whitespace-delimited token of the checksum object:
  skip the white space the text starts with, then read up to the next white space.
  \<open>spec_first_token\<close> says that for ASCII text (\<open>is_ascii\<close>: every byte below 0x80), where white
  space is one of tab, line feed, vertical tab, form feed, carriage return and blank. It is
  compared with \<open>Fields\<close> below.
\<close>

definition asciiSpace :: "char \<Rightarrow> bool" where
  "asciiSpace c =
     (c = CHR 0x09 \<or> c = CHR 0x0A \<or> c = CHR 0x0B \<or> c = CHR 0x0C \<or> c = CHR 0x0D \<or> c = CHR 0x20)"

definition is_ascii :: "char \<Rightarrow> bool" where
  "is_ascii c = ((of_char c :: nat) < 128)"

definition spec_first_token :: "string \<Rightarrow> string" where
  "spec_first_token s = takeWhile (\<lambda>c. \<not> asciiSpace c) (dropWhile asciiSpace s)"

section \<open>Lemmas\<close>

subsection \<open>Bytes, strings and digests\<close>

text \<open>
  Converting a string to bytes and back loses nothing. A digest is 32 bytes, its encoding 64
  characters of the table. Reading a buffer with bytes \<open>a\<close> through \<^verbatim>\<open>generateSha256\<close> gives
  the encoded SHA-256 of \<open>a\<close>, never an error, and leaves the buffer \<^bold>\<open>empty\<close>.
\<close>

lemma char_of_unat_of_char: "char_of (unat (of_char c :: byte)) = c"
proof -
  have "(of_char c :: byte) = of_nat (of_char c)"
    by (simp add: of_nat_of_char)
  then have "unat (of_char c :: byte) = of_char c mod 256"
    by (simp add: unat_of_nat)
  then show ?thesis by simp
qed

lemma string_of_bytes_of_string: "string_of_bytes (bytes_of_string s) = s"
  by (induction s) (simp_all add: string_of_bytes_def bytes_of_string_def char_of_unat_of_char)

lemma length_put32: "length (put32 x) = 4"
  by (simp add: put32_def)

lemma length_sum_bytes: "length (sum_bytes hs) = 32"
  by (cases hs rule: sum_bytes.cases) (simp add: length_put32)

lemma length_Sum256: "length (Sum256 m) = 32"
  by (simp add: Sum256_def Let_def length_sum_bytes)

lemma length_EncodeToString: "length (EncodeToString src) = 2 * length src"
  by (induction src) (simp_all add: EncodeToString_def)

lemma length_digest: "length (EncodeToString (Sum256 m)) = 64"
  by (simp add: length_EncodeToString length_Sum256)

lemma high_nibble: "unat (drop_bit 4 (v :: byte)) < 16"
proof -
  have "unat v < 256" using unsigned_less [of v] by simp
  then have "unat v div 16 < 16" by arith
  then show ?thesis by (simp add: drop_bit_eq_div unat_div)
qed

lemma low_nibble: "unat ((v :: byte) AND 0x0f) < 16"
proof -
  have "v AND 0x0f = take_bit 4 v"
    by (simp add: take_bit_eq_mask mask_eq_exp_minus_1)
  then have "unat (v AND 0x0f) = unat v mod 16"
    by (simp add: take_bit_eq_mod unat_mod)
  then show ?thesis by simp
qed

lemma hextable_nth: "n < 16 \<Longrightarrow> hextable ! n \<in> set hextable"
  by (rule nth_mem) (simp add: hextable_def)

lemma set_EncodeToString: "set (EncodeToString src) \<subseteq> set hextable"
  by (induction src) (simp_all add: EncodeToString_def hextable_nth high_nibble low_nibble)

lemma generateSha256_Buffer:
  "generateSha256 (Buffer a) = ((EncodeToString (Sum256 a), None), Buffer [])"
  by (simp add: generateSha256_def io_Copy_def Buffer_WriteTo_def Buffer_Len_def Hash_Write_def
      Hash_Sum_def sha256_New_def Let_def)

lemma sha256_hello:
  "EncodeToString (Sum256 (bytes_of_string ''hello''))
     = ''2cf24dba5fb0a30e26e83b2ac5b9e29e1b161e5c1fa7425e73043362938b9824''"
  by code_simp

subsection \<open>strings.Fields on ASCII text\<close>

text \<open>
  On ASCII text \<open>Fields\<close> finds no field exactly when the specification's first token is
  empty, that is when every character is white space; otherwise its first field is that token.
\<close>

declare Fields_loop.simps [simp del]

lemma space_width_Nil: "space_width [] = 0"
  by (simp add: space_width_def white_space_def)

lemma space_width_asciiSpace: "asciiSpace c \<Longrightarrow> space_width (c # s) = 1"
  unfolding asciiSpace_def
  by (elim disjE) (simp_all add: space_width_def white_space_def)

lemma ascii_not_lead:
  "is_ascii c \<Longrightarrow> c \<noteq> CHR 0xC2 \<and> c \<noteq> CHR 0xE1 \<and> c \<noteq> CHR 0xE2 \<and> c \<noteq> CHR 0xE3"
  by (auto simp: is_ascii_def)

lemma space_width_ascii: "is_ascii c \<Longrightarrow> \<not> asciiSpace c \<Longrightarrow> space_width (c # s) = 0"
  using ascii_not_lead [of c]
  by (simp add: asciiSpace_def space_width_def white_space_def)

lemma Fields_loop_Nil: "Fields_loop cur [] = (if cur = [] then [] else [cur])"
  by (simp add: Fields_loop.simps)

lemma Fields_loop_space:
  "asciiSpace c \<Longrightarrow> Fields_loop cur (c # s) = (if cur = [] then [] else [cur]) @ Fields_loop [] s"
  by (subst Fields_loop.simps) (simp add: space_width_asciiSpace)

lemma Fields_loop_char:
  "is_ascii c \<Longrightarrow> \<not> asciiSpace c \<Longrightarrow> Fields_loop cur (c # s) = Fields_loop (cur @ [c]) s"
  by (subst Fields_loop.simps) (simp add: space_width_ascii)

lemma Fields_loop_in_field:
  "list_all is_ascii s \<Longrightarrow> cur \<noteq> [] \<Longrightarrow>
   \<exists>rest. Fields_loop cur s = (cur @ takeWhile (\<lambda>c. \<not> asciiSpace c) s) # rest"
proof (induction s arbitrary: cur)
  case Nil
  then show ?case by (simp add: Fields_loop_Nil)
next
  case (Cons c s)
  show ?case
  proof (cases "asciiSpace c")
    case True
    with Cons.prems show ?thesis by (simp add: Fields_loop_space)
  next
    case False
    have "\<exists>rest. Fields_loop (cur @ [c]) s
        = ((cur @ [c]) @ takeWhile (\<lambda>c. \<not> asciiSpace c) s) # rest"
      using Cons.prems by (intro Cons.IH) simp_all
    with False Cons.prems show ?thesis by (simp add: Fields_loop_char)
  qed
qed

lemma Fields_loop_skip:
  "list_all is_ascii s \<Longrightarrow> Fields_loop [] s = Fields_loop [] (dropWhile asciiSpace s)"
  by (induction s) (simp_all add: Fields_loop_space)

lemma Fields_ascii:
  assumes "list_all is_ascii s"
  shows "Fields s = [] \<and> spec_first_token s = [] \<or>
         (\<exists>rest. Fields s = spec_first_token s # rest \<and> spec_first_token s \<noteq> [])"
proof (cases "dropWhile asciiSpace s")
  case Nil
  have "Fields s = Fields_loop [] []"
    by (simp only: Fields_def Fields_loop_skip [OF assms] Nil)
  moreover have "spec_first_token s = []"
    by (simp only: spec_first_token_def Nil takeWhile.simps)
  ultimately show ?thesis
    by (simp add: Fields_loop_Nil)
next
  case (Cons c t)
  then have c: "\<not> asciiSpace c"
    using hd_dropWhile [of asciiSpace s] by simp
  have "set (dropWhile asciiSpace s) \<subseteq> set s"
    by (rule set_dropWhileD [THEN subsetI])
  then have ct: "is_ascii c" "list_all is_ascii t"
    using assms Cons by (auto simp: list_all_iff)
  obtain rest where "Fields_loop [c] t = ([c] @ takeWhile (\<lambda>c. \<not> asciiSpace c) t) # rest"
    using Fields_loop_in_field [OF ct(2), of "[c]"] by auto
  then have "Fields s = spec_first_token s # rest \<and> spec_first_token s \<noteq> []"
    using assms Cons c ct
    by (simp add: Fields_def Fields_loop_skip spec_first_token_def Fields_loop_char)
  then show ?thesis by blast
qed

lemma Fields_first_token:
  "list_all is_ascii s \<Longrightarrow> Fields s = f # rest \<Longrightarrow> f = spec_first_token s"
  using Fields_ascii [of s] by auto

lemma Fields_empty_iff:
  "list_all is_ascii s \<Longrightarrow> (Fields s = []) = list_all asciiSpace s"
proof -
  assume a: "list_all is_ascii s"
  have "(spec_first_token s = []) = list_all asciiSpace s"
  proof (induction s)
    case Nil
    show ?case by (simp add: spec_first_token_def)
  next
    case (Cons c s)
    then show ?case by (simp add: spec_first_token_def)
  qed
  then show ?thesis
    using Fields_ascii [OF a] by auto
qed

lemma Fields_empty: "Fields '''' = []"
  by (simp add: Fields_def Fields_loop_Nil)

lemma Fields_newline: "Fields ''\<newline>'' = []"
  by code_simp

lemma Fields_example:
  "Fields ''abc123  filename.tar.gz\<newline>'' = [''abc123'', ''filename.tar.gz'']"
  by code_simp

lemma Fields_svc_checksum_text:
  "Fields svc_checksum_text =
     [''2cf24dba5fb0a30e26e83b2ac5b9e29e1b161e5c1fa7425e73043362938b9824'',
      ''svc_v1.0.0_linux_amd64.tar.gz'']"
  by code_simp

lemma ascii_svc_checksum_text: "list_all is_ascii svc_checksum_text"
  by (simp add: svc_checksum_text_def is_ascii_def)

subsection \<open>The paths of run\<close>

text \<open>
  What \<^verbatim>\<open>run\<close> returns and leaves behind on each of its paths: \<^verbatim>\<open>minio.New\<close> fails, the
  archive download fails, the checksum download fails, the checksum object has no field, and
  the comparison is reached with an expected digest \<open>e\<close> (after the events \<open>es\<close> of resolving
  it). Every run takes one of them (\<open>run_path_cases\<close>).
\<close>

lemma download_fetched:
  "fetched c b k = Some a \<Longrightarrow> download c b k w = (Inr (Buffer a), emit (StoreGet b k) w)"
  by (auto simp: fetched_def download_def io_Copy_from_def Buffer_ReadFrom_def NewBuffer_def
      split: sum.splits option.splits)

lemma download_failed:
  "fetched c b k = None \<Longrightarrow> \<exists>e. download c b k w = (Inl e, emit (StoreGet b k) w)"
  by (auto simp: fetched_def download_def io_Copy_from_def Buffer_ReadFrom_def NewBuffer_def
      split: sum.splits option.splits)

lemma run_New_failed:
  "minio_New env (endpoint opts) (id' opts) (key opts) True = Inl e \<Longrightarrow>
   run env opts w = (Returns (Some (LibError e)), w)"
  by (simp add: run_def)

lemma run_archive_failed:
  assumes "minio_New env (endpoint opts) (id' opts) (key opts) True = Inr c"
    and "fetched c (bucket opts) (tarKey opts) = None"
  shows "run env opts w =
    (Returns (Some (Errorf (''Can't download archive from '' @ bucket opts @ ''/'' @ tarKey opts))),
     w\<lparr>trace := trace w @ take 2 (archive_trace opts)\<rparr>)"
proof -
  obtain e where "download c (bucket opts) (tarKey opts)
      (Printf (''## Downloading Archive: '' @ bucket opts @ ''/'' @ tarKey opts @ ''\<newline>'') w)
    = (Inl e, emit (StoreGet (bucket opts) (tarKey opts))
      (Printf (''## Downloading Archive: '' @ bucket opts @ ''/'' @ tarKey opts @ ''\<newline>'') w))"
    using download_failed [OF assms(2)] by blast
  then show ?thesis
    using assms(1) by (simp add: run_def Let_def Printf_def emit_def archive_trace_def)
qed

lemma run_checksum_failed:
  assumes "minio_New env (endpoint opts) (id' opts) (key opts) True = Inr c"
    and "fetched c (bucket opts) (tarKey opts) = Some a"
    and "sha opts = ''''"
    and "fetched c (bucket opts) (checksumKey opts) = None"
  shows "run env opts w =
    (Returns (Some (Errorf (''Can't download checksum from '' @ bucket opts @ ''/''
                              @ checksumKey opts))),
     w\<lparr>trace := trace w @ archive_trace opts @ take 2 (checksum_trace opts)\<rparr>)"
proof -
  obtain e where "download c (bucket opts) (checksumKey opts)
      (Printf (''## Downloading Checksum: '' @ bucket opts @ ''/'' @ checksumKey opts
         @ ''\<newline>'') (w\<lparr>trace := trace w @ archive_trace opts\<rparr>))
    = (Inl e, emit (StoreGet (bucket opts) (checksumKey opts))
      (Printf (''## Downloading Checksum: '' @ bucket opts @ ''/'' @ checksumKey opts
         @ ''\<newline>'') (w\<lparr>trace := trace w @ archive_trace opts\<rparr>)))"
    using download_failed [OF assms(4)] by blast
  then show ?thesis
    using assms(1,2,3)
    by (simp add: run_def Let_def Printf_def emit_def archive_trace_def checksum_trace_def
        download_fetched generateSha256_Buffer)
qed

lemma run_no_field:
  assumes "minio_New env (endpoint opts) (id' opts) (key opts) True = Inr c"
    and "fetched c (bucket opts) (tarKey opts) = Some a"
    and "sha opts = ''''"
    and "fetched c (bucket opts) (checksumKey opts) = Some cs"
    and "Fields (string_of_bytes cs) = []"
  shows "run env opts w =
    (Panics_index_out_of_range,
     w\<lparr>trace := trace w @ archive_trace opts @ take 2 (checksum_trace opts)\<rparr>)"
  using assms
  by (simp add: run_def Let_def Printf_def emit_def archive_trace_def checksum_trace_def
      download_fetched generateSha256_Buffer Buffer_String_def)

lemma run_compare:
  assumes "minio_New env (endpoint opts) (id' opts) (key opts) True = Inr c"
    and "fetched c (bucket opts) (tarKey opts) = Some a"
    and "sha opts \<noteq> '''' \<and> e = sha opts \<and> es = [] \<or>
         sha opts = '''' \<and> es = checksum_trace opts \<and>
           (\<exists>cs rest. fetched c (bucket opts) (checksumKey opts) = Some cs \<and>
              Fields (string_of_bytes cs) = e # rest)"
  shows "run env opts w =
    (if e \<noteq> EncodeToString (Sum256 a) then
       (Returns (Some errChecksumMismatch),
        w\<lparr>trace := trace w @ archive_trace opts @ es @
           [Stdout ''## Comparing checksums\<newline>'', Stdout ''## FAIL\<newline>\<newline>'']\<rparr>)
     else
       (case create_refused env (tarKey opts) of
          Some err \<Rightarrow>
            (Returns (Some (LibError err)),
             w\<lparr>trace := trace w @ archive_trace opts @ es @
                [Stdout ''## Comparing checksums\<newline>'', Stdout ''## PASS\<newline>\<newline>'',
                 Stdout (''## Saving Archive to '' @ tarKey opts @ ''\<newline>''),
                 FsCreate (tarKey opts)]\<rparr>)
        | None \<Rightarrow>
            (Returns None,
             w\<lparr>trace := trace w @ archive_trace opts @ es @
                [Stdout ''## Comparing checksums\<newline>'', Stdout ''## PASS\<newline>\<newline>'',
                 Stdout (''## Saving Archive to '' @ tarKey opts @ ''\<newline>''),
                 FsCreate (tarKey opts), Stdout ''## Done\<newline>''],
               files := (files w)(tarKey opts \<mapsto> [])\<rparr>)))"
  using assms(3)
proof (elim disjE conjE exE)
  assume "sha opts \<noteq> ''''" "e = sha opts" "es = []"
  then show ?thesis
    using assms(1,2)
    by (simp add: run_def Let_def Printf_def emit_def archive_trace_def
        download_fetched generateSha256_Buffer os_Create_def io_Copy_def Buffer_WriteTo_def
        Buffer_Len_def split: option.splits)
next
  fix cs rest
  assume "sha opts = ''''" "es = checksum_trace opts"
    "fetched c (bucket opts) (checksumKey opts) = Some cs"
    "Fields (string_of_bytes cs) = e # rest"
  then show ?thesis
    using assms(1,2)
    by (simp add: run_def Let_def Printf_def emit_def archive_trace_def checksum_trace_def
        download_fetched generateSha256_Buffer os_Create_def io_Copy_def Buffer_WriteTo_def
        Buffer_Len_def Buffer_String_def split: option.splits)
qed

lemma run_path_cases [case_names New_failed archive_failed checksum_failed no_field compare]:
  obtains
    (New_failed) e where "minio_New env (endpoint opts) (id' opts) (key opts) True = Inl e"
  | (archive_failed) c where "minio_New env (endpoint opts) (id' opts) (key opts) True = Inr c"
      and "fetched c (bucket opts) (tarKey opts) = None"
  | (checksum_failed) c a where "minio_New env (endpoint opts) (id' opts) (key opts) True = Inr c"
      and "fetched c (bucket opts) (tarKey opts) = Some a" and "sha opts = ''''"
      and "fetched c (bucket opts) (checksumKey opts) = None"
  | (no_field) c a cs where "minio_New env (endpoint opts) (id' opts) (key opts) True = Inr c"
      and "fetched c (bucket opts) (tarKey opts) = Some a" and "sha opts = ''''"
      and "fetched c (bucket opts) (checksumKey opts) = Some cs"
      and "Fields (string_of_bytes cs) = []"
  | (compare) c a e es where "minio_New env (endpoint opts) (id' opts) (key opts) True = Inr c"
      and "fetched c (bucket opts) (tarKey opts) = Some a"
      and "sha opts \<noteq> '''' \<and> e = sha opts \<and> es = [] \<or>
           sha opts = '''' \<and> es = checksum_trace opts \<and>
             (\<exists>cs rest. fetched c (bucket opts) (checksumKey opts) = Some cs \<and>
                Fields (string_of_bytes cs) = e # rest)"
proof (cases "minio_New env (endpoint opts) (id' opts) (key opts) True")
  case (Inl e)
  then show ?thesis by (rule New_failed)
next
  case (Inr c)
  show ?thesis
  proof (cases "fetched c (bucket opts) (tarKey opts)")
    case None
    with Inr show ?thesis by (rule archive_failed)
  next
    case (Some a)
    show ?thesis
    proof (cases "sha opts = ''''")
      case False
      with Inr Some show ?thesis by (intro compare [of c a "sha opts" "[]"]) auto
    next
      case True
      show ?thesis
      proof (cases "fetched c (bucket opts) (checksumKey opts)")
        case None
        with Inr Some True show ?thesis by (intro checksum_failed)
      next
        case cs: (Some cs)
        show ?thesis
        proof (cases "Fields (string_of_bytes cs)")
          case Nil
          with Inr Some True cs show ?thesis by (intro no_field)
        next
          case (Cons e rest)
          with Inr Some True cs show ?thesis
            by (intro compare [of c a e "checksum_trace opts"]) auto
        qed
      qed
    qed
  qed
qed

lemma keys_differ: "tarKey opts \<noteq> checksumKey opts"
  by (simp add: tarKey_def checksumKey_def)

subsection \<open>The events of a run\<close>

lemma events_New_failed:
  "minio_New env (endpoint opts) (id' opts) (key opts) True = Inl e \<Longrightarrow> events env opts w = []"
  by (simp add: events_def run_New_failed)

lemma events_archive_failed:
  "minio_New env (endpoint opts) (id' opts) (key opts) True = Inr c \<Longrightarrow>
   fetched c (bucket opts) (tarKey opts) = None \<Longrightarrow>
   events env opts w = take 2 (archive_trace opts)"
  by (simp add: events_def run_archive_failed)

lemma events_checksum_failed:
  "minio_New env (endpoint opts) (id' opts) (key opts) True = Inr c \<Longrightarrow>
   fetched c (bucket opts) (tarKey opts) = Some a \<Longrightarrow> sha opts = '''' \<Longrightarrow>
   fetched c (bucket opts) (checksumKey opts) = None \<Longrightarrow>
   events env opts w = archive_trace opts @ take 2 (checksum_trace opts)"
  by (simp add: events_def run_checksum_failed)

lemma events_no_field:
  "minio_New env (endpoint opts) (id' opts) (key opts) True = Inr c \<Longrightarrow>
   fetched c (bucket opts) (tarKey opts) = Some a \<Longrightarrow> sha opts = '''' \<Longrightarrow>
   fetched c (bucket opts) (checksumKey opts) = Some cs \<Longrightarrow>
   Fields (string_of_bytes cs) = [] \<Longrightarrow>
   events env opts w = archive_trace opts @ take 2 (checksum_trace opts)"
  by (simp add: events_def run_no_field)

lemma events_compare:
  assumes "minio_New env (endpoint opts) (id' opts) (key opts) True = Inr c"
    and "fetched c (bucket opts) (tarKey opts) = Some a"
    and "sha opts \<noteq> '''' \<and> e = sha opts \<and> es = [] \<or>
         sha opts = '''' \<and> es = checksum_trace opts \<and>
           (\<exists>cs rest. fetched c (bucket opts) (checksumKey opts) = Some cs \<and>
              Fields (string_of_bytes cs) = e # rest)"
  shows "events env opts w = archive_trace opts @ es @
    (if e \<noteq> EncodeToString (Sum256 a) then
       [Stdout ''## Comparing checksums\<newline>'', Stdout ''## FAIL\<newline>\<newline>'']
     else [Stdout ''## Comparing checksums\<newline>'', Stdout ''## PASS\<newline>\<newline>'',
           Stdout (''## Saving Archive to '' @ tarKey opts @ ''\<newline>''), FsCreate (tarKey opts)]
          @ (case create_refused env (tarKey opts) of Some err \<Rightarrow> []
             | None \<Rightarrow> [Stdout ''## Done\<newline>'']))"
  by (simp add: events_def run_compare [OF assms] split: option.splits)

lemma PASS_notin_archive_trace: "Stdout ''## PASS\<newline>\<newline>'' \<notin> set (archive_trace opts)"
  by (simp add: archive_trace_def)

lemma PASS_notin_checksum_trace: "Stdout ''## PASS\<newline>\<newline>'' \<notin> set (checksum_trace opts)"
  by (simp add: checksum_trace_def)

lemma FAIL_notin_archive_trace: "Stdout ''## FAIL\<newline>\<newline>'' \<notin> set (archive_trace opts)"
  by (simp add: archive_trace_def)

lemma FAIL_notin_checksum_trace: "Stdout ''## FAIL\<newline>\<newline>'' \<notin> set (checksum_trace opts)"
  by (simp add: checksum_trace_def)

lemma fs_archive_trace: "filter is_fs_call (archive_trace opts) = []"
  by (simp add: archive_trace_def)

lemma fs_checksum_trace: "filter is_fs_call (checksum_trace opts) = []"
  by (simp add: checksum_trace_def)

lemma store_archive_trace:
  "filter is_store_call (archive_trace opts) = [StoreGet (bucket opts) (tarKey opts)]"
  by (simp add: archive_trace_def)

lemma store_checksum_trace:
  "filter is_store_call (checksum_trace opts) = [StoreGet (bucket opts) (checksumKey opts)]"
  by (simp add: checksum_trace_def)

lemma compare_es:
  "sha opts \<noteq> '''' \<and> e = sha opts \<and> es = [] \<or>
   sha opts = '''' \<and> es = checksum_trace opts \<and> Q \<Longrightarrow>
   es = [] \<or> es = checksum_trace opts"
  by auto

lemma fs_calls_compare:
  assumes "minio_New env (endpoint opts) (id' opts) (key opts) True = Inr c"
    and "fetched c (bucket opts) (tarKey opts) = Some a"
    and "sha opts \<noteq> '''' \<and> e = sha opts \<and> es = [] \<or>
         sha opts = '''' \<and> es = checksum_trace opts \<and>
           (\<exists>cs rest. fetched c (bucket opts) (checksumKey opts) = Some cs \<and>
              Fields (string_of_bytes cs) = e # rest)"
  shows "filter is_fs_call (events env opts w) =
    (if e \<noteq> EncodeToString (Sum256 a) then [] else [FsCreate (tarKey opts)])"
proof -
  have "es = [] \<or> es = checksum_trace opts"
    using assms(3) by (rule compare_es)
  then show ?thesis
    by (elim disjE)
      (simp_all add: events_compare [OF assms] fs_archive_trace fs_checksum_trace
        split: option.splits)
qed

lemma store_calls_compare:
  assumes "minio_New env (endpoint opts) (id' opts) (key opts) True = Inr c"
    and "fetched c (bucket opts) (tarKey opts) = Some a"
    and "sha opts \<noteq> '''' \<and> e = sha opts \<and> es = [] \<or>
         sha opts = '''' \<and> es = checksum_trace opts \<and>
           (\<exists>cs rest. fetched c (bucket opts) (checksumKey opts) = Some cs \<and>
              Fields (string_of_bytes cs) = e # rest)"
  shows "filter is_store_call (events env opts w) =
    StoreGet (bucket opts) (tarKey opts) #
      (if sha opts = '''' then [StoreGet (bucket opts) (checksumKey opts)] else [])"
  using assms(3)
  by (elim disjE conjE)
    (simp_all add: events_compare [OF assms] store_archive_trace store_checksum_trace
      split: option.splits)

lemma store_calls_cases:
  "filter is_store_call (events env opts w) = [] \<or>
   filter is_store_call (events env opts w) = [StoreGet (bucket opts) (tarKey opts)] \<or>
   filter is_store_call (events env opts w)
     = [StoreGet (bucket opts) (tarKey opts), StoreGet (bucket opts) (checksumKey opts)]"
proof (cases rule: run_path_cases [of env opts])
  case (New_failed e)
  then show ?thesis by (simp add: events_New_failed)
next
  case (archive_failed c)
  then show ?thesis by (simp add: events_archive_failed archive_trace_def)
next
  case (checksum_failed c a)
  then show ?thesis
    by (simp add: events_checksum_failed [OF checksum_failed] store_archive_trace
        checksum_trace_def)
next
  case (no_field c a cs)
  then show ?thesis
    by (simp add: events_no_field [OF no_field] store_archive_trace checksum_trace_def)
next
  case (compare c a e es)
  show ?thesis by (simp add: store_calls_compare [OF compare])
qed

lemma fs_calls_cases:
  "filter is_fs_call (events env opts w) = [] \<or>
   filter is_fs_call (events env opts w) = [FsCreate (tarKey opts)]"
proof (cases rule: run_path_cases [of env opts])
  case (New_failed e)
  then show ?thesis by (simp add: events_New_failed)
next
  case (archive_failed c)
  then show ?thesis by (simp add: events_archive_failed archive_trace_def)
next
  case (checksum_failed c a)
  then show ?thesis
    by (simp add: events_checksum_failed [OF checksum_failed] fs_archive_trace
        checksum_trace_def)
next
  case (no_field c a cs)
  then show ?thesis
    by (simp add: events_no_field [OF no_field] fs_archive_trace checksum_trace_def)
next
  case (compare c a e es)
  show ?thesis by (simp add: fs_calls_compare [OF compare])
qed

lemma StoreGet_in_events:
  "(StoreGet b k \<in> set es) = (StoreGet b k \<in> set (filter is_store_call es))"
  by simp

lemma store_calls_flag:
  assumes "sha opts \<noteq> ''''"
  shows "filter is_store_call (events env opts w) = [] \<or>
         filter is_store_call (events env opts w) = [StoreGet (bucket opts) (tarKey opts)]"
proof (cases rule: run_path_cases [of env opts])
  case (New_failed e)
  then show ?thesis by (simp add: events_New_failed)
next
  case (archive_failed c)
  then show ?thesis by (simp add: events_archive_failed archive_trace_def)
next
  case (checksum_failed c a)
  with assms show ?thesis by simp
next
  case (no_field c a cs)
  with assms show ?thesis by simp
next
  case (compare c a e es)
  show ?thesis using assms by (simp add: store_calls_compare [OF compare])
qed

subsection \<open>The verdict and the files\<close>

text \<open>
  \<open>saved_file_is_empty\<close>: whenever the verification passes and \<^verbatim>\<open>os.Create\<close> succeeds, the
  run returns \<^verbatim>\<open>nil\<close> and the file named by the archive key is \<^bold>\<open>empty\<close>, whatever the
  archive was.
\<close>

lemma run_compare_outcome:
  assumes "minio_New env (endpoint opts) (id' opts) (key opts) True = Inr c"
    and "fetched c (bucket opts) (tarKey opts) = Some a"
    and "sha opts \<noteq> '''' \<and> e = sha opts \<and> es = [] \<or>
         sha opts = '''' \<and> es = checksum_trace opts \<and>
           (\<exists>cs rest. fetched c (bucket opts) (checksumKey opts) = Some cs \<and>
              Fields (string_of_bytes cs) = e # rest)"
  shows "(fst (run env opts w) = Returns (Some errChecksumMismatch))
           = (e \<noteq> EncodeToString (Sum256 a))"
  by (simp add: run_compare [OF assms] split: option.splits)

lemma verdict_compare:
  assumes "minio_New env (endpoint opts) (id' opts) (key opts) True = Inr c"
    and "fetched c (bucket opts) (tarKey opts) = Some a"
    and "sha opts \<noteq> '''' \<and> e = sha opts \<and> es = [] \<or>
         sha opts = '''' \<and> es = checksum_trace opts \<and>
           (\<exists>cs rest. fetched c (bucket opts) (checksumKey opts) = Some cs \<and>
              Fields (string_of_bytes cs) = e # rest)"
  shows "(Stdout ''## PASS\<newline>\<newline>'' \<in> set (events env opts w)) = (e = EncodeToString (Sum256 a))"
    and "(Stdout ''## FAIL\<newline>\<newline>'' \<in> set (events env opts w)) = (e \<noteq> EncodeToString (Sum256 a))"
proof -
  have es: "es = [] \<or> es = checksum_trace opts"
    using assms(3) by (rule compare_es)
  then show "(Stdout ''## PASS\<newline>\<newline>'' \<in> set (events env opts w)) = (e = EncodeToString (Sum256 a))"
    by (elim disjE)
      (simp_all add: events_compare [OF assms] PASS_notin_archive_trace PASS_notin_checksum_trace
        split: option.splits)
  from es show "(Stdout ''## FAIL\<newline>\<newline>'' \<in> set (events env opts w)) = (e \<noteq> EncodeToString (Sum256 a))"
    by (elim disjE)
      (simp_all add: events_compare [OF assms] FAIL_notin_archive_trace FAIL_notin_checksum_trace
        split: option.splits)
qed

lemma compare_verdict:
  assumes "minio_New env (endpoint opts) (id' opts) (key opts) True = Inr c"
    and "fetched c (bucket opts) (tarKey opts) = Some a"
    and "sha opts \<noteq> '''' \<and> e = sha opts \<or>
         sha opts = '''' \<and>
           (\<exists>cs rest. fetched c (bucket opts) (checksumKey opts) = Some cs \<and>
              Fields (string_of_bytes cs) = e # rest)"
  shows "(Stdout ''## PASS\<newline>\<newline>'' \<in> set (events env opts w)) = (e = EncodeToString (Sum256 a))"
    and "(Stdout ''## FAIL\<newline>\<newline>'' \<in> set (events env opts w)) = (e \<noteq> EncodeToString (Sum256 a))"
    and "(fst (run env opts w) = Returns (Some errChecksumMismatch)) = (e \<noteq> EncodeToString (Sum256 a))"
proof -
  obtain es where es: "sha opts \<noteq> '''' \<and> e = sha opts \<and> es = [] \<or>
         sha opts = '''' \<and> es = checksum_trace opts \<and>
           (\<exists>cs rest. fetched c (bucket opts) (checksumKey opts) = Some cs \<and>
              Fields (string_of_bytes cs) = e # rest)"
    using assms(3) by blast
  show "(Stdout ''## PASS\<newline>\<newline>'' \<in> set (events env opts w)) = (e = EncodeToString (Sum256 a))"
    by (rule verdict_compare(1) [OF assms(1,2) es])
  show "(Stdout ''## FAIL\<newline>\<newline>'' \<in> set (events env opts w)) = (e \<noteq> EncodeToString (Sum256 a))"
    by (rule verdict_compare(2) [OF assms(1,2) es])
  show "(fst (run env opts w) = Returns (Some errChecksumMismatch)) = (e \<noteq> EncodeToString (Sum256 a))"
    by (rule run_compare_outcome [OF assms(1,2) es])
qed

lemma no_PASS_before_compare:
  "minio_New env (endpoint opts) (id' opts) (key opts) True = Inl e
     \<Longrightarrow> Stdout ''## PASS\<newline>\<newline>'' \<notin> set (events env opts w)"
  "minio_New env (endpoint opts) (id' opts) (key opts) True = Inr c \<Longrightarrow>
   fetched c (bucket opts) (tarKey opts) = None
     \<Longrightarrow> Stdout ''## PASS\<newline>\<newline>'' \<notin> set (events env opts w)"
  "minio_New env (endpoint opts) (id' opts) (key opts) True = Inr c \<Longrightarrow>
   fetched c (bucket opts) (tarKey opts) = Some a \<Longrightarrow> sha opts = '''' \<Longrightarrow>
   fetched c (bucket opts) (checksumKey opts) = None
     \<Longrightarrow> Stdout ''## PASS\<newline>\<newline>'' \<notin> set (events env opts w)"
  "minio_New env (endpoint opts) (id' opts) (key opts) True = Inr c \<Longrightarrow>
   fetched c (bucket opts) (tarKey opts) = Some a \<Longrightarrow> sha opts = '''' \<Longrightarrow>
   fetched c (bucket opts) (checksumKey opts) = Some cs \<Longrightarrow>
   Fields (string_of_bytes cs) = []
     \<Longrightarrow> Stdout ''## PASS\<newline>\<newline>'' \<notin> set (events env opts w)"
  by (simp_all add: events_New_failed events_archive_failed events_checksum_failed
      events_no_field archive_trace_def checksum_trace_def)

lemma files_unless_PASS:
  assumes "Stdout ''## PASS\<newline>\<newline>'' \<notin> set (events env opts w)"
  shows "files (snd (run env opts w)) = files w \<and> filter is_fs_call (events env opts w) = []"
proof (cases rule: run_path_cases [of env opts])
  case (New_failed e)
  then show ?thesis by (simp add: events_New_failed run_New_failed)
next
  case (archive_failed c)
  then show ?thesis by (simp add: events_archive_failed run_archive_failed archive_trace_def)
next
  case (checksum_failed c a)
  then show ?thesis
    by (simp add: events_checksum_failed [OF checksum_failed] run_checksum_failed [OF checksum_failed]
        fs_archive_trace checksum_trace_def)
next
  case (no_field c a cs)
  then show ?thesis
    by (simp add: events_no_field [OF no_field] run_no_field [OF no_field]
        fs_archive_trace checksum_trace_def)
next
  case (compare c a e es)
  have "e \<noteq> EncodeToString (Sum256 a)"
    using assms verdict_compare(1) [OF compare, of w] by simp
  then show ?thesis
    by (simp add: fs_calls_compare [OF compare] run_compare [OF compare])
qed

lemma FAIL_means_mismatch:
  assumes "Stdout ''## FAIL\<newline>\<newline>'' \<in> set (events env opts w)"
  shows "fst (run env opts w) = Returns (Some errChecksumMismatch) \<and>
         Stdout ''## PASS\<newline>\<newline>'' \<notin> set (events env opts w)"
proof (cases rule: run_path_cases [of env opts])
  case (New_failed e)
  with assms show ?thesis by (simp add: events_New_failed)
next
  case (archive_failed c)
  with assms show ?thesis by (simp add: events_archive_failed archive_trace_def)
next
  case (checksum_failed c a)
  with assms show ?thesis
    by (simp add: events_checksum_failed [OF checksum_failed] archive_trace_def checksum_trace_def)
next
  case (no_field c a cs)
  with assms show ?thesis
    by (simp add: events_no_field [OF no_field] archive_trace_def checksum_trace_def)
next
  case (compare c a e es)
  have "e \<noteq> EncodeToString (Sum256 a)"
    using assms verdict_compare(2) [OF compare, of w] by simp
  then show ?thesis
    using verdict_compare(1) [OF compare, of w] run_compare_outcome [OF compare, of w] by simp
qed

lemma saved_file_is_empty:
  assumes "minio_New env (endpoint opts) (id' opts) (key opts) True = Inr c"
    and "fetched c (bucket opts) (tarKey opts) = Some a"
    and "sha opts \<noteq> '''' \<and> e = sha opts \<or>
         sha opts = '''' \<and>
           (\<exists>cs rest. fetched c (bucket opts) (checksumKey opts) = Some cs \<and>
              Fields (string_of_bytes cs) = e # rest)"
    and "e = EncodeToString (Sum256 a)"
    and "create_refused env (tarKey opts) = None"
  shows "run env opts w =
    (Returns None,
     w\<lparr>trace := trace w @ events env opts w, files := (files w)(tarKey opts \<mapsto> [])\<rparr>)"
proof -
  obtain es where es: "sha opts \<noteq> '''' \<and> e = sha opts \<and> es = [] \<or>
         sha opts = '''' \<and> es = checksum_trace opts \<and>
           (\<exists>cs rest. fetched c (bucket opts) (checksumKey opts) = Some cs \<and>
              Fields (string_of_bytes cs) = e # rest)"
    using assms(3) by blast
  show ?thesis
    using assms(4,5)
    by (simp add: run_compare [OF assms(1,2) es] events_compare [OF assms(1,2) es])
qed

lemma create_refused_keeps_files:
  assumes "minio_New env (endpoint opts) (id' opts) (key opts) True = Inr c"
    and "fetched c (bucket opts) (tarKey opts) = Some a"
    and "sha opts \<noteq> '''' \<and> e = sha opts \<or>
         sha opts = '''' \<and>
           (\<exists>cs rest. fetched c (bucket opts) (checksumKey opts) = Some cs \<and>
              Fields (string_of_bytes cs) = e # rest)"
    and "e = EncodeToString (Sum256 a)"
    and "create_refused env (tarKey opts) = Some msg"
  shows "run env opts w =
    (Returns (Some (LibError msg)), w\<lparr>trace := trace w @ events env opts w\<rparr>)"
proof -
  obtain es where es: "sha opts \<noteq> '''' \<and> e = sha opts \<and> es = [] \<or>
         sha opts = '''' \<and> es = checksum_trace opts \<and>
           (\<exists>cs rest. fetched c (bucket opts) (checksumKey opts) = Some cs \<and>
              Fields (string_of_bytes cs) = e # rest)"
    using assms(3) by blast
  show ?thesis
    using assms(4,5)
    by (simp add: run_compare [OF assms(1,2) es] events_compare [OF assms(1,2) es])
qed

subsection \<open>The scenario\<close>

lemma svc_tarKey: "tarKey svc_opts = ''svc_v1.0.0_linux_amd64.tar.gz''"
  by (simp add: tarKey_def fileName_def svc_opts_def)

lemma svc_checksumKey: "checksumKey svc_opts = ''svc_v1.0.0_linux_amd64.sha256''"
  by (simp add: checksumKey_def fileName_def svc_opts_def)

lemma svc_New:
  "minio_New (fake_env objs) (endpoint opts) (id' opts) (key opts) True = Inr (fake_client objs)"
  by (simp add: fake_env_def)

lemma svc_fetched_archive:
  "fetched (fake_client (svc_store t)) (bucket svc_opts) (tarKey svc_opts)
     = Some (bytes_of_string ''hello'')"
  by (simp add: svc_tarKey) (simp add: fetched_def fake_client_def svc_store_def svc_opts_def)

lemma svc_fetched_checksum:
  "fetched (fake_client (svc_store t)) (bucket svc_opts) (checksumKey svc_opts)
     = Some (bytes_of_string t)"
  by (simp add: svc_checksumKey) (simp add: fetched_def fake_client_def svc_store_def svc_opts_def)

section \<open>The claims\<close>

text \<open>
  Claim C1. A run that prints \<^verbatim>\<open>## FAIL\<close> (the comparison of the two digests failed)
  returns \<^verbatim>\<open>errChecksumMismatch\<close>, leaves the local files as they were and has made no call
  to the file system. And whenever a run reaches the comparison with an expected digest (the
  \<^verbatim>\<open>-sha\<close> option, or the first field of the checksum object) that differs from the digest
  computed from the archive, it prints \<^verbatim>\<open>## FAIL\<close>.
\<close>

theorem C1_mismatch_never_persists:
  "(Stdout ''## FAIL\<newline>\<newline>'' \<in> set (events env opts w) \<longrightarrow>
      fst (run env opts w) = Returns (Some errChecksumMismatch) \<and>
      files (snd (run env opts w)) = files w \<and>
      filter is_fs_call (events env opts w) = []) \<and>
   (\<forall>c a e. minio_New env (endpoint opts) (id' opts) (key opts) True = Inr c \<and>
      fetched c (bucket opts) (tarKey opts) = Some a \<and>
      (sha opts \<noteq> '''' \<and> e = sha opts \<or>
       sha opts = '''' \<and>
         (\<exists>cs rest. fetched c (bucket opts) (checksumKey opts) = Some cs \<and>
            Fields (string_of_bytes cs) = e # rest)) \<and>
      e \<noteq> EncodeToString (Sum256 a) \<longrightarrow>
      Stdout ''## FAIL\<newline>\<newline>'' \<in> set (events env opts w))"
proof (intro conjI allI impI)
  assume f: "Stdout ''## FAIL\<newline>\<newline>'' \<in> set (events env opts w)"
  then show "fst (run env opts w) = Returns (Some errChecksumMismatch)"
    using FAIL_means_mismatch by blast
  from f have "Stdout ''## PASS\<newline>\<newline>'' \<notin> set (events env opts w)"
    using FAIL_means_mismatch by blast
  then show "files (snd (run env opts w)) = files w"
    and "filter is_fs_call (events env opts w) = []"
    using files_unless_PASS by blast+
next
  fix c a e
  assume h: "minio_New env (endpoint opts) (id' opts) (key opts) True = Inr c \<and>
      fetched c (bucket opts) (tarKey opts) = Some a \<and>
      (sha opts \<noteq> '''' \<and> e = sha opts \<or>
       sha opts = '''' \<and>
         (\<exists>cs rest. fetched c (bucket opts) (checksumKey opts) = Some cs \<and>
            Fields (string_of_bytes cs) = e # rest)) \<and>
      e \<noteq> EncodeToString (Sum256 a)"
  then have "(Stdout ''## FAIL\<newline>\<newline>'' \<in> set (events env opts w))
      = (e \<noteq> EncodeToString (Sum256 a))"
    by (intro compare_verdict(2) [of env opts c a e w]) blast+
  with h show "Stdout ''## FAIL\<newline>\<newline>'' \<in> set (events env opts w)"
    by blast
qed

text \<open>
  The theorem at the scenario of the specification, with a checksum object that names
  another digest.
\<close>

theorem C1_mismatch_witness:
  "minio_New (fake_env (svc_store ''abc123  filename.tar.gz\<newline>''))
      (endpoint svc_opts) (id' svc_opts) (key svc_opts) True
     = Inr (fake_client (svc_store ''abc123  filename.tar.gz\<newline>'')) \<and>
   fetched (fake_client (svc_store ''abc123  filename.tar.gz\<newline>''))
      (bucket svc_opts) (tarKey svc_opts) = Some (bytes_of_string ''hello'') \<and>
   sha svc_opts = '''' \<and>
   fetched (fake_client (svc_store ''abc123  filename.tar.gz\<newline>''))
      (bucket svc_opts) (checksumKey svc_opts)
     = Some (bytes_of_string ''abc123  filename.tar.gz\<newline>'') \<and>
   Fields (string_of_bytes (bytes_of_string ''abc123  filename.tar.gz\<newline>''))
     = ''abc123'' # [''filename.tar.gz''] \<and>
   ''abc123'' \<noteq> EncodeToString (Sum256 (bytes_of_string ''hello'')) \<and>
   Stdout ''## FAIL\<newline>\<newline>''
     \<in> set (events (fake_env (svc_store ''abc123  filename.tar.gz\<newline>'')) svc_opts world0) \<and>
   fst (run (fake_env (svc_store ''abc123  filename.tar.gz\<newline>'')) svc_opts world0)
     = Returns (Some errChecksumMismatch) \<and>
   files (snd (run (fake_env (svc_store ''abc123  filename.tar.gz\<newline>'')) svc_opts world0))
     = files world0 \<and>
   filter is_fs_call (events (fake_env (svc_store ''abc123  filename.tar.gz\<newline>'')) svc_opts world0)
     = []"
proof -
  let ?t = "''abc123  filename.tar.gz\<newline>''"
  let ?env = "fake_env (svc_store ?t)"
  let ?c = "fake_client (svc_store ?t)"
  have h1: "minio_New ?env (endpoint svc_opts) (id' svc_opts) (key svc_opts) True = Inr ?c"
    by (rule svc_New)
  have h2: "fetched ?c (bucket svc_opts) (tarKey svc_opts) = Some (bytes_of_string ''hello'')"
    by (rule svc_fetched_archive)
  have h3: "sha svc_opts = ''''"
    by (simp add: svc_opts_def)
  have h4: "fetched ?c (bucket svc_opts) (checksumKey svc_opts) = Some (bytes_of_string ?t)"
    by (rule svc_fetched_checksum)
  have h5: "Fields (string_of_bytes (bytes_of_string ?t)) = ''abc123'' # [''filename.tar.gz'']"
    by (simp only: string_of_bytes_of_string Fields_example)
  have h6: "''abc123'' \<noteq> EncodeToString (Sum256 (bytes_of_string ''hello''))"
  proof
    assume "''abc123'' = EncodeToString (Sum256 (bytes_of_string ''hello''))"
    then have "length ''abc123'' = length (EncodeToString (Sum256 (bytes_of_string ''hello'')))"
      by simp
    then show False by (simp add: length_digest)
  qed
  note c1 = C1_mismatch_never_persists [of ?env svc_opts world0]
  have f: "Stdout ''## FAIL\<newline>\<newline>'' \<in> set (events ?env svc_opts world0)"
    using c1 h1 h2 h3 h4 h5 h6 by blast
  have "fst (run ?env svc_opts world0) = Returns (Some errChecksumMismatch)"
    and "files (snd (run ?env svc_opts world0)) = files world0"
    and "filter is_fs_call (events ?env svc_opts world0) = []"
    using c1 f by blast+
  then show ?thesis
    using h1 h2 h3 h4 h5 h6 f by blast
qed

text \<open>
  Claim C2 says that after a passing verification the file written under the archive key
  holds exactly the archive bytes fetched from the store. The code does not do that:
  \<^verbatim>\<open>generateSha256\<close> drains the archive buffer, and the later
  \<^verbatim>\<open>io.Copy(archiveFile, archive)\<close> finds nothing left to write. At the scenario of the
  specification (archive \<^verbatim>\<open>hello\<close>, a checksum object whose first field is its true digest)
  the run passes, returns \<^verbatim>\<open>nil\<close>, and the file it created is empty. The same holds on
  every passing run (\<open>saved_file_is_empty\<close>).
\<close>

theorem C2_saved_file_is_empty:
  "fetched (fake_client (svc_store svc_checksum_text)) ''releases'' ''svc_v1.0.0_linux_amd64.tar.gz''
     = Some (bytes_of_string ''hello'') \<and>
   fetched (fake_client (svc_store svc_checksum_text)) ''releases'' ''svc_v1.0.0_linux_amd64.sha256''
     = Some (bytes_of_string svc_checksum_text) \<and>
   hd (Fields svc_checksum_text) = EncodeToString (Sum256 (bytes_of_string ''hello'')) \<and>
   fst (run (fake_env (svc_store svc_checksum_text)) svc_opts world0) = Returns None \<and>
   Stdout ''## PASS\<newline>\<newline>'' \<in> set (events (fake_env (svc_store svc_checksum_text)) svc_opts world0) \<and>
   files (snd (run (fake_env (svc_store svc_checksum_text)) svc_opts world0))
     ''svc_v1.0.0_linux_amd64.tar.gz'' = Some [] \<and>
   files (snd (run (fake_env (svc_store svc_checksum_text)) svc_opts world0))
     ''svc_v1.0.0_linux_amd64.tar.gz'' \<noteq> Some (bytes_of_string ''hello'')"
proof -
  let ?env = "fake_env (svc_store svc_checksum_text)"
  let ?c = "fake_client (svc_store svc_checksum_text)"
  let ?d = "''2cf24dba5fb0a30e26e83b2ac5b9e29e1b161e5c1fa7425e73043362938b9824''"
  have h1: "minio_New ?env (endpoint svc_opts) (id' svc_opts) (key svc_opts) True = Inr ?c"
    by (rule svc_New)
  have h2: "fetched ?c (bucket svc_opts) (tarKey svc_opts) = Some (bytes_of_string ''hello'')"
    by (rule svc_fetched_archive)
  have h3: "fetched ?c (bucket svc_opts) (checksumKey svc_opts)
      = Some (bytes_of_string svc_checksum_text)"
    by (rule svc_fetched_checksum)
  have h4: "Fields (string_of_bytes (bytes_of_string svc_checksum_text))
      = ?d # [''svc_v1.0.0_linux_amd64.tar.gz'']"
    by (simp only: string_of_bytes_of_string Fields_svc_checksum_text)
  have r: "sha svc_opts \<noteq> '''' \<and> ?d = sha svc_opts \<or>
         sha svc_opts = '''' \<and>
           (\<exists>cs rest. fetched ?c (bucket svc_opts) (checksumKey svc_opts) = Some cs \<and>
              Fields (string_of_bytes cs) = ?d # rest)"
    using h3 h4 by (simp add: svc_opts_def)
  have d: "?d = EncodeToString (Sum256 (bytes_of_string ''hello''))"
    by (simp only: sha256_hello)
  have cr: "create_refused ?env (tarKey svc_opts) = None"
    by (simp add: fake_env_def)
  have run: "run ?env svc_opts world0 =
    (Returns None,
     world0\<lparr>trace := trace world0 @ events ?env svc_opts world0,
             files := (files world0)(tarKey svc_opts \<mapsto> [])\<rparr>)"
    by (rule saved_file_is_empty [OF h1 h2 r d cr])
  have pass: "Stdout ''## PASS\<newline>\<newline>'' \<in> set (events ?env svc_opts world0)"
    using compare_verdict(1) [OF h1 h2 r, of world0] d by simp
  have hd: "hd (Fields svc_checksum_text) = EncodeToString (Sum256 (bytes_of_string ''hello''))"
    by (simp add: Fields_svc_checksum_text sha256_hello)
  have saved: "files (snd (run ?env svc_opts world0)) ''svc_v1.0.0_linux_amd64.tar.gz'' = Some []"
    by (simp add: run svc_tarKey)
  have "bytes_of_string ''hello'' \<noteq> []"
    by (simp add: bytes_of_string_def)
  with saved have differs: "files (snd (run ?env svc_opts world0)) ''svc_v1.0.0_linux_amd64.tar.gz''
      \<noteq> Some (bytes_of_string ''hello'')"
    by simp
  have out: "fst (run ?env svc_opts world0) = Returns None"
    by (simp add: run)
  have h2': "fetched ?c ''releases'' ''svc_v1.0.0_linux_amd64.tar.gz''
      = Some (bytes_of_string ''hello'')"
    using h2 by (simp add: svc_tarKey) (simp add: svc_opts_def)
  have h3': "fetched ?c ''releases'' ''svc_v1.0.0_linux_amd64.sha256''
      = Some (bytes_of_string svc_checksum_text)"
    using h3 by (simp add: svc_checksumKey) (simp add: svc_opts_def)
  show ?thesis
    using h2' h3' hd out pass saved differs by blast
qed

text \<open>
  Claim C3 says that an empty checksum object makes the run return a malformed-checksum
  error. The code indexes the result of \<^verbatim>\<open>strings.Fields\<close> with \<^verbatim>\<open>[0]\<close> unchecked: with
  no \<^verbatim>\<open>-sha\<close> option and a checksum object that is empty, or holds white space only, the
  run panics with an index out of range and returns nothing (on every such run:
  \<open>run_no_field\<close>; on ASCII text \<open>Fields\<close> is empty exactly when every character is white
  space: \<open>Fields_empty_iff\<close>).
\<close>

theorem C3_empty_checksum_panics:
  "fetched (fake_client (svc_store '''')) ''releases'' ''svc_v1.0.0_linux_amd64.sha256'' = Some [] \<and>
   sha svc_opts = '''' \<and>
   Fields (string_of_bytes []) = [] \<and>
   fst (run (fake_env (svc_store '''')) svc_opts world0) = Panics_index_out_of_range \<and>
   Fields ''\<newline>'' = [] \<and>
   fst (run (fake_env (svc_store ''\<newline>'')) svc_opts world0) = Panics_index_out_of_range"
proof -
  have s: "sha svc_opts = ''''"
    by (simp add: svc_opts_def)
  have e1: "fetched (fake_client (svc_store '''')) (bucket svc_opts) (checksumKey svc_opts)
      = Some (bytes_of_string '''')"
    by (rule svc_fetched_checksum)
  have f1: "Fields (string_of_bytes (bytes_of_string '''')) = []"
    by (simp only: string_of_bytes_of_string Fields_empty)
  have r1: "fst (run (fake_env (svc_store '''')) svc_opts world0) = Panics_index_out_of_range"
    by (simp add: run_no_field [OF svc_New svc_fetched_archive s e1 f1])
  have e2: "fetched (fake_client (svc_store ''\<newline>'')) (bucket svc_opts) (checksumKey svc_opts)
      = Some (bytes_of_string ''\<newline>'')"
    by (rule svc_fetched_checksum)
  have f2: "Fields (string_of_bytes (bytes_of_string ''\<newline>'')) = []"
    by (simp only: string_of_bytes_of_string Fields_newline)
  have r2: "fst (run (fake_env (svc_store ''\<newline>'')) svc_opts world0) = Panics_index_out_of_range"
    by (simp add: run_no_field [OF svc_New svc_fetched_archive s e2 f2])
  have e1': "fetched (fake_client (svc_store '''')) ''releases'' ''svc_v1.0.0_linux_amd64.sha256''
      = Some []"
    using e1 by (simp add: svc_checksumKey bytes_of_string_def) (simp add: svc_opts_def)
  have f1': "Fields (string_of_bytes []) = []"
    using f1 by (simp add: bytes_of_string_def)
  show ?thesis
    using e1' s f1' r1 r2 Fields_newline by blast
qed

text \<open>
  Claim C4. When the expected digest is taken from the checksum object, the value compared
  with the computed digest is the first field that \<^verbatim>\<open>strings.Fields\<close> finds in the object's
  text: the run prints \<^verbatim>\<open>## PASS\<close> exactly when that field equals the computed digest, and
  returns \<^verbatim>\<open>errChecksumMismatch\<close> exactly when it differs. On ASCII text that field is the
  first whitespace-delimited token in the words of the specification (\<open>spec_first_token\<close>).
  The text \<^verbatim>\<open>abc123  filename.tar.gz\<close> with its newline has the fields \<^verbatim>\<open>abc123\<close> and
  \<^verbatim>\<open>filename.tar.gz\<close>.
\<close>

theorem C4_first_field_is_expected_digest:
  assumes "minio_New env (endpoint opts) (id' opts) (key opts) True = Inr c"
    and "fetched c (bucket opts) (tarKey opts) = Some a"
    and "sha opts = ''''"
    and "fetched c (bucket opts) (checksumKey opts) = Some cs"
    and "Fields (string_of_bytes cs) = f # rest"
  shows "(Stdout ''## PASS\<newline>\<newline>'' \<in> set (events env opts w)) = (f = EncodeToString (Sum256 a)) \<and>
         (fst (run env opts w) = Returns (Some errChecksumMismatch)) = (f \<noteq> EncodeToString (Sum256 a)) \<and>
         (list_all is_ascii (string_of_bytes cs) \<longrightarrow> f = spec_first_token (string_of_bytes cs)) \<and>
         Fields ''abc123  filename.tar.gz\<newline>'' = [''abc123'', ''filename.tar.gz''] \<and>
         spec_first_token ''abc123  filename.tar.gz\<newline>'' = ''abc123''"
proof -
  have r: "sha opts \<noteq> '''' \<and> f = sha opts \<and> checksum_trace opts = [] \<or>
         sha opts = '''' \<and> checksum_trace opts = checksum_trace opts \<and>
           (\<exists>cs rest. fetched c (bucket opts) (checksumKey opts) = Some cs \<and>
              Fields (string_of_bytes cs) = f # rest)"
    using assms(3,4,5) by blast
  have "list_all is_ascii (string_of_bytes cs) \<longrightarrow> f = spec_first_token (string_of_bytes cs)"
    using Fields_first_token [OF _ assms(5)] by blast
  moreover have "spec_first_token ''abc123  filename.tar.gz\<newline>'' = ''abc123''"
    by (simp add: spec_first_token_def asciiSpace_def)
  ultimately show ?thesis
    using verdict_compare(1) [OF assms(1,2) r, of w] run_compare_outcome [OF assms(1,2) r, of w]
      Fields_example
    by blast
qed

text \<open>
  The theorem at the scenario of the specification: the checksum object holds the true
  digest of \<^verbatim>\<open>hello\<close>, two blanks, the archive's name and a newline.
\<close>

theorem C4_first_field_witness:
  "minio_New (fake_env (svc_store svc_checksum_text)) (endpoint svc_opts) (id' svc_opts) (key svc_opts) True
     = Inr (fake_client (svc_store svc_checksum_text)) \<and>
   fetched (fake_client (svc_store svc_checksum_text)) (bucket svc_opts) (tarKey svc_opts)
     = Some (bytes_of_string ''hello'') \<and>
   sha svc_opts = '''' \<and>
   fetched (fake_client (svc_store svc_checksum_text)) (bucket svc_opts) (checksumKey svc_opts)
     = Some (bytes_of_string svc_checksum_text) \<and>
   Fields (string_of_bytes (bytes_of_string svc_checksum_text))
     = ''2cf24dba5fb0a30e26e83b2ac5b9e29e1b161e5c1fa7425e73043362938b9824''
       # [''svc_v1.0.0_linux_amd64.tar.gz''] \<and>
   list_all is_ascii (string_of_bytes (bytes_of_string svc_checksum_text)) \<and>
   ''2cf24dba5fb0a30e26e83b2ac5b9e29e1b161e5c1fa7425e73043362938b9824''
     = spec_first_token (string_of_bytes (bytes_of_string svc_checksum_text)) \<and>
   Stdout ''## PASS\<newline>\<newline>'' \<in> set (events (fake_env (svc_store svc_checksum_text)) svc_opts world0) \<and>
   fst (run (fake_env (svc_store svc_checksum_text)) svc_opts world0)
     \<noteq> Returns (Some errChecksumMismatch)"
proof -
  let ?env = "fake_env (svc_store svc_checksum_text)"
  let ?c = "fake_client (svc_store svc_checksum_text)"
  let ?d = "''2cf24dba5fb0a30e26e83b2ac5b9e29e1b161e5c1fa7425e73043362938b9824''"
  have h1: "minio_New ?env (endpoint svc_opts) (id' svc_opts) (key svc_opts) True = Inr ?c"
    by (rule svc_New)
  have h2: "fetched ?c (bucket svc_opts) (tarKey svc_opts) = Some (bytes_of_string ''hello'')"
    by (rule svc_fetched_archive)
  have h3: "sha svc_opts = ''''"
    by (simp add: svc_opts_def)
  have h4: "fetched ?c (bucket svc_opts) (checksumKey svc_opts)
      = Some (bytes_of_string svc_checksum_text)"
    by (rule svc_fetched_checksum)
  have h5: "Fields (string_of_bytes (bytes_of_string svc_checksum_text))
      = ?d # [''svc_v1.0.0_linux_amd64.tar.gz'']"
    by (simp only: string_of_bytes_of_string Fields_svc_checksum_text)
  have h6: "list_all is_ascii (string_of_bytes (bytes_of_string svc_checksum_text))"
    by (simp only: string_of_bytes_of_string ascii_svc_checksum_text)
  have d: "?d = EncodeToString (Sum256 (bytes_of_string ''hello''))"
    by (simp only: sha256_hello)
  note c4 = C4_first_field_is_expected_digest [OF h1 h2 h3 h4 h5, of world0]
  have "?d = spec_first_token (string_of_bytes (bytes_of_string svc_checksum_text))"
    using c4 h6 by blast
  moreover have "Stdout ''## PASS\<newline>\<newline>'' \<in> set (events ?env svc_opts world0)"
    using c4 d by blast
  moreover have "fst (run ?env svc_opts world0) \<noteq> Returns (Some errChecksumMismatch)"
    using c4 d by blast
  ultimately show ?thesis
    using h1 h2 h3 h4 h5 h6 by blast
qed

text \<open>
  Claim C5. The archive key is \<^verbatim>\<open>{app}_{tag}_{os}_{arch}.tar.gz\<close> and the checksum key is
  \<^verbatim>\<open>{app}_{tag}_{os}_{arch}.sha256\<close>: the same base with two suffixes, and never equal.
  They are the keys a run uses: every request of a run to the store asks the bucket of the
  options for one of the two, and the only file a run creates is named by the archive key.
\<close>

theorem C5_keys:
  "tarKey opts = app opts @ ''_'' @ tag opts @ ''_'' @ os opts @ ''_'' @ arch opts @ ''.tar.gz'' \<and>
   checksumKey opts = app opts @ ''_'' @ tag opts @ ''_'' @ os opts @ ''_'' @ arch opts @ ''.sha256'' \<and>
   (\<exists>base. tarKey opts = base @ ''.tar.gz'' \<and> checksumKey opts = base @ ''.sha256'') \<and>
   tarKey opts \<noteq> checksumKey opts \<and>
   set (filter is_store_call (events env opts w))
     \<subseteq> {StoreGet (bucket opts) (tarKey opts), StoreGet (bucket opts) (checksumKey opts)} \<and>
   set (filter is_fs_call (events env opts w)) \<subseteq> {FsCreate (tarKey opts)}"
proof -
  have keys: "tarKey opts = app opts @ ''_'' @ tag opts @ ''_'' @ os opts @ ''_'' @ arch opts @ ''.tar.gz''"
    "checksumKey opts = app opts @ ''_'' @ tag opts @ ''_'' @ os opts @ ''_'' @ arch opts @ ''.sha256''"
    by (simp_all add: tarKey_def checksumKey_def fileName_def)
  have base: "\<exists>base. tarKey opts = base @ ''.tar.gz'' \<and> checksumKey opts = base @ ''.sha256''"
    unfolding tarKey_def checksumKey_def by blast
  have store: "set (filter is_store_call (events env opts w))
       \<subseteq> {StoreGet (bucket opts) (tarKey opts), StoreGet (bucket opts) (checksumKey opts)}"
    using store_calls_cases [of env opts w] by (elim disjE) (simp_all del: set_filter)
  have fs: "set (filter is_fs_call (events env opts w)) \<subseteq> {FsCreate (tarKey opts)}"
    using fs_calls_cases [of env opts w] by (elim disjE) (simp_all del: set_filter)
  show ?thesis
    using keys base keys_differ [of opts] store fs by blast
qed

text \<open>
  Claim C6. With a non-empty \<^verbatim>\<open>-sha\<close> option, a run never requests the checksum key from
  the store, and the option is compared as it is: once the archive is downloaded, the run
  prints \<^verbatim>\<open>## PASS\<close> exactly when the option equals the computed digest and returns
  \<^verbatim>\<open>errChecksumMismatch\<close> exactly when it differs.
\<close>

theorem C6_override_skips_checksum_fetch:
  assumes "sha opts \<noteq> ''''"
  shows "(\<forall>b. StoreGet b (checksumKey opts) \<notin> set (events env opts w)) \<and>
         (\<forall>c a. minio_New env (endpoint opts) (id' opts) (key opts) True = Inr c \<and>
              fetched c (bucket opts) (tarKey opts) = Some a \<longrightarrow>
            (Stdout ''## PASS\<newline>\<newline>'' \<in> set (events env opts w))
              = (sha opts = EncodeToString (Sum256 a)) \<and>
            (fst (run env opts w) = Returns (Some errChecksumMismatch))
              = (sha opts \<noteq> EncodeToString (Sum256 a)))"
proof (intro conjI allI impI)
  fix b
  show "StoreGet b (checksumKey opts) \<notin> set (events env opts w)"
    using store_calls_flag [OF assms, of env w] keys_differ [of opts]
    by (subst StoreGet_in_events) (elim disjE, simp_all del: set_filter)
next
  fix c a
  assume h: "minio_New env (endpoint opts) (id' opts) (key opts) True = Inr c \<and>
              fetched c (bucket opts) (tarKey opts) = Some a"
  have r: "sha opts \<noteq> '''' \<and> sha opts = sha opts \<and> ([]::event list) = [] \<or>
         sha opts = '''' \<and> [] = checksum_trace opts \<and>
           (\<exists>cs rest. fetched c (bucket opts) (checksumKey opts) = Some cs \<and>
              Fields (string_of_bytes cs) = sha opts # rest)"
    using assms by simp
  show "(Stdout ''## PASS\<newline>\<newline>'' \<in> set (events env opts w))
              = (sha opts = EncodeToString (Sum256 a))"
    using h verdict_compare(1) [OF _ _ r] by blast
  show "(fst (run env opts w) = Returns (Some errChecksumMismatch))
              = (sha opts \<noteq> EncodeToString (Sum256 a))"
    using h run_compare_outcome [OF _ _ r] by blast
qed

text \<open>The theorem with the true digest of \<^verbatim>\<open>hello\<close> as the \<^verbatim>\<open>-sha\<close> option.\<close>

theorem C6_override_witness:
  "sha (svc_opts\<lparr>sha := ''2cf24dba5fb0a30e26e83b2ac5b9e29e1b161e5c1fa7425e73043362938b9824''\<rparr>) \<noteq> '''' \<and>
   (\<forall>b. StoreGet b ''svc_v1.0.0_linux_amd64.sha256''
      \<notin> set (events (fake_env (svc_store svc_checksum_text))
           (svc_opts\<lparr>sha := ''2cf24dba5fb0a30e26e83b2ac5b9e29e1b161e5c1fa7425e73043362938b9824''\<rparr>)
           world0)) \<and>
   fetched (fake_client (svc_store svc_checksum_text)) ''releases'' ''svc_v1.0.0_linux_amd64.tar.gz''
     = Some (bytes_of_string ''hello'') \<and>
   Stdout ''## PASS\<newline>\<newline>''
     \<in> set (events (fake_env (svc_store svc_checksum_text))
           (svc_opts\<lparr>sha := ''2cf24dba5fb0a30e26e83b2ac5b9e29e1b161e5c1fa7425e73043362938b9824''\<rparr>)
           world0) \<and>
   fst (run (fake_env (svc_store svc_checksum_text))
          (svc_opts\<lparr>sha := ''2cf24dba5fb0a30e26e83b2ac5b9e29e1b161e5c1fa7425e73043362938b9824''\<rparr>)
          world0) \<noteq> Returns (Some errChecksumMismatch)"
proof -
  let ?env = "fake_env (svc_store svc_checksum_text)"
  let ?c = "fake_client (svc_store svc_checksum_text)"
  let ?d = "''2cf24dba5fb0a30e26e83b2ac5b9e29e1b161e5c1fa7425e73043362938b9824''"
  let ?opts = "svc_opts\<lparr>sha := ?d\<rparr>"
  have k: "tarKey ?opts = ''svc_v1.0.0_linux_amd64.tar.gz''" "bucket ?opts = ''releases''"
    "checksumKey ?opts = ''svc_v1.0.0_linux_amd64.sha256''"
    by (simp_all add: tarKey_def checksumKey_def fileName_def svc_opts_def)
  have h0: "sha ?opts \<noteq> ''''"
    by simp
  have h1: "minio_New ?env (endpoint ?opts) (id' ?opts) (key ?opts) True = Inr ?c"
    by (rule svc_New)
  have h2: "fetched ?c (bucket ?opts) (tarKey ?opts) = Some (bytes_of_string ''hello'')"
    by (simp add: k) (simp add: fetched_def fake_client_def svc_store_def)
  have d: "sha ?opts = EncodeToString (Sum256 (bytes_of_string ''hello''))"
    by (simp add: sha256_hello)
  note c6 = C6_override_skips_checksum_fetch [OF h0, of ?env world0]
  have "\<forall>b. StoreGet b (checksumKey ?opts) \<notin> set (events ?env ?opts world0)"
    using c6 by blast
  moreover have "Stdout ''## PASS\<newline>\<newline>'' \<in> set (events ?env ?opts world0)"
    using c6 h1 h2 d by blast
  moreover have "fst (run ?env ?opts world0) \<noteq> Returns (Some errChecksumMismatch)"
    using c6 h1 h2 d by blast
  ultimately show ?thesis
    using h0 h2 unfolding k by blast
qed

text \<open>
  Claim C7. \<^verbatim>\<open>generateSha256\<close> over a buffer holding the bytes \<open>p\<close> returns, with no error,
  the hexadecimal encoding of the SHA-256 of \<open>p\<close>: a function of the bytes alone, 64
  characters long, each of them one of \<^verbatim>\<open>0123456789abcdef\<close>. For \<^verbatim>\<open>hello\<close> it is the digest the
  specification quotes.
\<close>

theorem C7_digest_is_64_lowercase_hex:
  "fst (generateSha256 (NewBuffer p)) = (EncodeToString (Sum256 p), None) \<and>
   length (fst (fst (generateSha256 (NewBuffer p)))) = 64 \<and>
   set (fst (fst (generateSha256 (NewBuffer p)))) \<subseteq> set ''0123456789abcdef'' \<and>
   fst (generateSha256 (NewBuffer (bytes_of_string ''hello'')))
     = (''2cf24dba5fb0a30e26e83b2ac5b9e29e1b161e5c1fa7425e73043362938b9824'', None)"
  using set_EncodeToString [of "Sum256 p"]
  by (simp add: NewBuffer_def generateSha256_Buffer length_digest sha256_hello hextable_def)

text \<open>
  Claim C8. When a run reaches the comparison with the expected digest \<open>e\<close>, it prints
  \<^verbatim>\<open>## PASS\<close> exactly when \<open>e\<close> and the computed digest are the same string, prints
  \<^verbatim>\<open>## FAIL\<close> exactly when they are not, and returns \<^verbatim>\<open>errChecksumMismatch\<close> exactly when
  they are not.
\<close>

theorem C8_verifier_exact_equality:
  assumes "minio_New env (endpoint opts) (id' opts) (key opts) True = Inr c"
    and "fetched c (bucket opts) (tarKey opts) = Some a"
    and "sha opts \<noteq> '''' \<and> e = sha opts \<or>
         sha opts = '''' \<and>
           (\<exists>cs rest. fetched c (bucket opts) (checksumKey opts) = Some cs \<and>
              Fields (string_of_bytes cs) = e # rest)"
  shows "(Stdout ''## PASS\<newline>\<newline>'' \<in> set (events env opts w)) = (e = EncodeToString (Sum256 a)) \<and>
         (Stdout ''## FAIL\<newline>\<newline>'' \<in> set (events env opts w)) = (e \<noteq> EncodeToString (Sum256 a)) \<and>
         (fst (run env opts w) = Returns (Some errChecksumMismatch)) = (e \<noteq> EncodeToString (Sum256 a))"
  using compare_verdict [OF assms, of w] by blast

text \<open>
  The theorem with the true digest of \<^verbatim>\<open>hello\<close> in upper case as the \<^verbatim>\<open>-sha\<close> option: no
  case is folded, the run fails.
\<close>

theorem C8_verifier_witness:
  "minio_New (fake_env (svc_store ''''))
      (endpoint (svc_opts\<lparr>sha := ''2CF24DBA5FB0A30E26E83B2AC5B9E29E1B161E5C1FA7425E73043362938B9824''\<rparr>))
      (id' (svc_opts\<lparr>sha := ''2CF24DBA5FB0A30E26E83B2AC5B9E29E1B161E5C1FA7425E73043362938B9824''\<rparr>))
      (key (svc_opts\<lparr>sha := ''2CF24DBA5FB0A30E26E83B2AC5B9E29E1B161E5C1FA7425E73043362938B9824''\<rparr>)) True
     = Inr (fake_client (svc_store '''')) \<and>
   fetched (fake_client (svc_store '''')) ''releases'' ''svc_v1.0.0_linux_amd64.tar.gz''
     = Some (bytes_of_string ''hello'') \<and>
   sha (svc_opts\<lparr>sha := ''2CF24DBA5FB0A30E26E83B2AC5B9E29E1B161E5C1FA7425E73043362938B9824''\<rparr>) \<noteq> '''' \<and>
   EncodeToString (Sum256 (bytes_of_string ''hello''))
     = ''2cf24dba5fb0a30e26e83b2ac5b9e29e1b161e5c1fa7425e73043362938b9824'' \<and>
   Stdout ''## PASS\<newline>\<newline>''
     \<notin> set (events (fake_env (svc_store ''''))
           (svc_opts\<lparr>sha := ''2CF24DBA5FB0A30E26E83B2AC5B9E29E1B161E5C1FA7425E73043362938B9824''\<rparr>)
           world0) \<and>
   Stdout ''## FAIL\<newline>\<newline>''
     \<in> set (events (fake_env (svc_store ''''))
           (svc_opts\<lparr>sha := ''2CF24DBA5FB0A30E26E83B2AC5B9E29E1B161E5C1FA7425E73043362938B9824''\<rparr>)
           world0) \<and>
   fst (run (fake_env (svc_store ''''))
          (svc_opts\<lparr>sha := ''2CF24DBA5FB0A30E26E83B2AC5B9E29E1B161E5C1FA7425E73043362938B9824''\<rparr>)
          world0) = Returns (Some errChecksumMismatch)"
proof -
  let ?env = "fake_env (svc_store '''')"
  let ?c = "fake_client (svc_store '''')"
  let ?u = "''2CF24DBA5FB0A30E26E83B2AC5B9E29E1B161E5C1FA7425E73043362938B9824''"
  let ?opts = "svc_opts\<lparr>sha := ?u\<rparr>"
  have k: "tarKey ?opts = ''svc_v1.0.0_linux_amd64.tar.gz''" "bucket ?opts = ''releases''"
    by (simp_all add: tarKey_def fileName_def svc_opts_def)
  have h1: "minio_New ?env (endpoint ?opts) (id' ?opts) (key ?opts) True = Inr ?c"
    by (rule svc_New)
  have h2: "fetched ?c (bucket ?opts) (tarKey ?opts) = Some (bytes_of_string ''hello'')"
    by (simp add: k) (simp add: fetched_def fake_client_def svc_store_def)
  have h3: "sha ?opts \<noteq> '''' \<and> ?u = sha ?opts \<or>
         sha ?opts = '''' \<and>
           (\<exists>cs rest. fetched ?c (bucket ?opts) (checksumKey ?opts) = Some cs \<and>
              Fields (string_of_bytes cs) = ?u # rest)"
    by simp
  have ne: "?u \<noteq> EncodeToString (Sum256 (bytes_of_string ''hello''))"
    by (simp add: sha256_hello)
  note c8 = C8_verifier_exact_equality [OF h1 h2 h3, of world0]
  have "Stdout ''## PASS\<newline>\<newline>'' \<notin> set (events ?env ?opts world0)"
    using c8 ne by blast
  moreover have "Stdout ''## FAIL\<newline>\<newline>'' \<in> set (events ?env ?opts world0)"
    using c8 ne by blast
  moreover have "fst (run ?env ?opts world0) = Returns (Some errChecksumMismatch)"
    using c8 ne by blast
  moreover have "sha ?opts \<noteq> ''''"
    by simp
  ultimately show ?thesis
    using h1 h2 sha256_hello unfolding k by blast
qed

text \<open>
  Claim C9 says that on PASS the archive bytes are written in full to the file named by the
  archive key, and that a refusal of the file system is returned to the caller. The code
  returns the error of a refused \<^verbatim>\<open>os.Create\<close> and leaves the files alone; but after a
  successful \<^verbatim>\<open>os.Create\<close> it writes nothing, since the archive buffer is already drained
  (the defect of claim C2): a file that held an older archive ends up empty, and the only
  call to the file system is the creation.
\<close>

theorem C9_persister_truncates_only:
  "files world_old ''svc_v1.0.0_linux_amd64.tar.gz'' = Some (bytes_of_string ''old'') \<and>
   sha (svc_opts\<lparr>sha := ''2cf24dba5fb0a30e26e83b2ac5b9e29e1b161e5c1fa7425e73043362938b9824''\<rparr>)
     = EncodeToString (Sum256 (bytes_of_string ''hello'')) \<and>
   fst (run (fake_env (svc_store ''''))
          (svc_opts\<lparr>sha := ''2cf24dba5fb0a30e26e83b2ac5b9e29e1b161e5c1fa7425e73043362938b9824''\<rparr>)
          world_old) = Returns None \<and>
   files (snd (run (fake_env (svc_store ''''))
          (svc_opts\<lparr>sha := ''2cf24dba5fb0a30e26e83b2ac5b9e29e1b161e5c1fa7425e73043362938b9824''\<rparr>)
          world_old)) ''svc_v1.0.0_linux_amd64.tar.gz'' = Some [] \<and>
   filter is_fs_call (events (fake_env (svc_store ''''))
          (svc_opts\<lparr>sha := ''2cf24dba5fb0a30e26e83b2ac5b9e29e1b161e5c1fa7425e73043362938b9824''\<rparr>)
          world_old) = [FsCreate ''svc_v1.0.0_linux_amd64.tar.gz''] \<and>
   fst (run (refusing_env (svc_store ''''))
          (svc_opts\<lparr>sha := ''2cf24dba5fb0a30e26e83b2ac5b9e29e1b161e5c1fa7425e73043362938b9824''\<rparr>)
          world_old) = Returns (Some (LibError ''permission denied'')) \<and>
   files (snd (run (refusing_env (svc_store ''''))
          (svc_opts\<lparr>sha := ''2cf24dba5fb0a30e26e83b2ac5b9e29e1b161e5c1fa7425e73043362938b9824''\<rparr>)
          world_old)) = files world_old"
proof -
  let ?d = "''2cf24dba5fb0a30e26e83b2ac5b9e29e1b161e5c1fa7425e73043362938b9824''"
  let ?opts = "svc_opts\<lparr>sha := ?d\<rparr>"
  let ?c = "fake_client (svc_store '''')"
  have k: "tarKey ?opts = ''svc_v1.0.0_linux_amd64.tar.gz''" "bucket ?opts = ''releases''"
    by (simp_all add: tarKey_def fileName_def svc_opts_def)
  have old: "files world_old ''svc_v1.0.0_linux_amd64.tar.gz'' = Some (bytes_of_string ''old'')"
    by (simp add: world_old_def)
  have d: "?d = EncodeToString (Sum256 (bytes_of_string ''hello''))"
    by (simp only: sha256_hello)
  have h1: "minio_New (fake_env (svc_store '''')) (endpoint ?opts) (id' ?opts) (key ?opts) True
      = Inr ?c"
    by (rule svc_New)
  have h1': "minio_New (refusing_env (svc_store '''')) (endpoint ?opts) (id' ?opts) (key ?opts) True
      = Inr ?c"
    by (simp add: refusing_env_def fake_env_def)
  have h2: "fetched ?c (bucket ?opts) (tarKey ?opts) = Some (bytes_of_string ''hello'')"
    by (simp add: k) (simp add: fetched_def fake_client_def svc_store_def)
  have r: "sha ?opts \<noteq> '''' \<and> ?d = sha ?opts \<or>
         sha ?opts = '''' \<and>
           (\<exists>cs rest. fetched ?c (bucket ?opts) (checksumKey ?opts) = Some cs \<and>
              Fields (string_of_bytes cs) = ?d # rest)"
    by simp
  have r': "sha ?opts \<noteq> '''' \<and> ?d = sha ?opts \<and> ([]::event list) = [] \<or>
         sha ?opts = '''' \<and> [] = checksum_trace ?opts \<and>
           (\<exists>cs rest. fetched ?c (bucket ?opts) (checksumKey ?opts) = Some cs \<and>
              Fields (string_of_bytes cs) = ?d # rest)"
    by simp
  have cr: "create_refused (fake_env (svc_store '''')) (tarKey ?opts) = None"
    by (simp add: fake_env_def)
  have cr': "create_refused (refusing_env (svc_store '''')) (tarKey ?opts) = Some ''permission denied''"
    by (simp add: refusing_env_def)
  have run1: "run (fake_env (svc_store '''')) ?opts world_old =
    (Returns None,
     world_old\<lparr>trace := trace world_old @ events (fake_env (svc_store '''')) ?opts world_old,
                files := (files world_old)(tarKey ?opts \<mapsto> [])\<rparr>)"
    by (rule saved_file_is_empty [OF h1 h2 r d cr])
  have run2: "run (refusing_env (svc_store '''')) ?opts world_old =
    (Returns (Some (LibError ''permission denied'')),
     world_old\<lparr>trace := trace world_old @ events (refusing_env (svc_store '''')) ?opts world_old\<rparr>)"
    by (rule create_refused_keeps_files [OF h1' h2 r d cr'])
  have fs: "filter is_fs_call (events (fake_env (svc_store '''')) ?opts world_old)
      = [FsCreate ''svc_v1.0.0_linux_amd64.tar.gz'']"
    by (simp add: fs_calls_compare [OF h1 h2 r'] k sha256_hello)
  have "sha ?opts = EncodeToString (Sum256 (bytes_of_string ''hello''))"
    using d by simp
  moreover have "fst (run (fake_env (svc_store '''')) ?opts world_old) = Returns None"
    by (simp add: run1)
  moreover have "files (snd (run (fake_env (svc_store '''')) ?opts world_old))
      ''svc_v1.0.0_linux_amd64.tar.gz'' = Some []"
    by (simp add: run1 k)
  moreover have "fst (run (refusing_env (svc_store '''')) ?opts world_old)
      = Returns (Some (LibError ''permission denied''))"
    by (simp add: run2)
  moreover have "files (snd (run (refusing_env (svc_store '''')) ?opts world_old)) = files world_old"
    by (simp add: run2)
  ultimately show ?thesis
    using old fs by blast
qed

text \<open>
  Claim C10. A run that has not printed \<^verbatim>\<open>## PASS\<close> has left the local files as they were
  and made no call to the file system: that covers every return before the verification
  passes. The requests of a run to the store are, in this order, none, the archive key alone,
  or the archive key and then the checksum key. When the archive download fails (the request, or
  the read of the stream) the run returns the archive error after that one request; when the
  checksum download fails it returns the checksum error. Digesting the buffer never fails.
\<close>

theorem C10_errors_before_pass:
  "(Stdout ''## PASS\<newline>\<newline>'' \<notin> set (events env opts w) \<longrightarrow>
      files (snd (run env opts w)) = files w \<and> filter is_fs_call (events env opts w) = []) \<and>
   (filter is_store_call (events env opts w) = [] \<or>
    filter is_store_call (events env opts w) = [StoreGet (bucket opts) (tarKey opts)] \<or>
    filter is_store_call (events env opts w)
      = [StoreGet (bucket opts) (tarKey opts), StoreGet (bucket opts) (checksumKey opts)]) \<and>
   (\<forall>c. minio_New env (endpoint opts) (id' opts) (key opts) True = Inr c \<and>
        fetched c (bucket opts) (tarKey opts) = None \<longrightarrow>
      fst (run env opts w)
        = Returns (Some (Errorf (''Can't download archive from '' @ bucket opts @ ''/''
                                   @ tarKey opts))) \<and>
      filter is_store_call (events env opts w) = [StoreGet (bucket opts) (tarKey opts)] \<and>
      Stdout ''## PASS\<newline>\<newline>'' \<notin> set (events env opts w)) \<and>
   (\<forall>c a. minio_New env (endpoint opts) (id' opts) (key opts) True = Inr c \<and>
        fetched c (bucket opts) (tarKey opts) = Some a \<and> sha opts = '''' \<and>
        fetched c (bucket opts) (checksumKey opts) = None \<longrightarrow>
      fst (run env opts w)
        = Returns (Some (Errorf (''Can't download checksum from '' @ bucket opts @ ''/''
                                   @ checksumKey opts))) \<and>
      filter is_store_call (events env opts w)
        = [StoreGet (bucket opts) (tarKey opts), StoreGet (bucket opts) (checksumKey opts)] \<and>
      Stdout ''## PASS\<newline>\<newline>'' \<notin> set (events env opts w)) \<and>
   (\<forall>buf. snd (fst (generateSha256 buf)) = None)"
proof (intro conjI allI impI)
  assume "Stdout ''## PASS\<newline>\<newline>'' \<notin> set (events env opts w)"
  then show "files (snd (run env opts w)) = files w"
    and "filter is_fs_call (events env opts w) = []"
    using files_unless_PASS by blast+
next
  show "filter is_store_call (events env opts w) = [] \<or>
    filter is_store_call (events env opts w) = [StoreGet (bucket opts) (tarKey opts)] \<or>
    filter is_store_call (events env opts w)
      = [StoreGet (bucket opts) (tarKey opts), StoreGet (bucket opts) (checksumKey opts)]"
    by (rule store_calls_cases)
next
  fix c
  assume h: "minio_New env (endpoint opts) (id' opts) (key opts) True = Inr c \<and>
        fetched c (bucket opts) (tarKey opts) = None"
  then show "fst (run env opts w)
        = Returns (Some (Errorf (''Can't download archive from '' @ bucket opts @ ''/''
                                   @ tarKey opts)))"
    by (simp add: run_archive_failed)
  from h show "filter is_store_call (events env opts w) = [StoreGet (bucket opts) (tarKey opts)]"
    by (simp add: events_archive_failed archive_trace_def)
  from h show "Stdout ''## PASS\<newline>\<newline>'' \<notin> set (events env opts w)"
    using no_PASS_before_compare(2) by blast
next
  fix c a
  assume h: "minio_New env (endpoint opts) (id' opts) (key opts) True = Inr c \<and>
        fetched c (bucket opts) (tarKey opts) = Some a \<and> sha opts = '''' \<and>
        fetched c (bucket opts) (checksumKey opts) = None"
  then show "fst (run env opts w)
        = Returns (Some (Errorf (''Can't download checksum from '' @ bucket opts @ ''/''
                                   @ checksumKey opts)))"
    by (simp add: run_checksum_failed)
  from h have "events env opts w = archive_trace opts @ take 2 (checksum_trace opts)"
    using events_checksum_failed by blast
  then show "filter is_store_call (events env opts w)
        = [StoreGet (bucket opts) (tarKey opts), StoreGet (bucket opts) (checksumKey opts)]"
    by (simp add: store_archive_trace checksum_trace_def)
  from h show "Stdout ''## PASS\<newline>\<newline>'' \<notin> set (events env opts w)"
    using no_PASS_before_compare(3) by blast
next
  fix buf
  show "snd (fst (generateSha256 buf)) = None"
    by (cases buf) (simp add: generateSha256_Buffer)
qed

text \<open>
  The theorem at two stores: an empty one (the archive download fails), and one that holds
  the archive alone (the checksum download fails).
\<close>

theorem C10_errors_witness:
  "minio_New (fake_env []) (endpoint svc_opts) (id' svc_opts) (key svc_opts) True
     = Inr (fake_client []) \<and>
   fetched (fake_client []) (bucket svc_opts) (tarKey svc_opts) = None \<and>
   fst (run (fake_env []) svc_opts world0)
     = Returns (Some (Errorf ''Can't download archive from releases/svc_v1.0.0_linux_amd64.tar.gz'')) \<and>
   filter is_store_call (events (fake_env []) svc_opts world0)
     = [StoreGet ''releases'' ''svc_v1.0.0_linux_amd64.tar.gz''] \<and>
   Stdout ''## PASS\<newline>\<newline>'' \<notin> set (events (fake_env []) svc_opts world0) \<and>
   files (snd (run (fake_env []) svc_opts world0)) = files world0 \<and>
   filter is_fs_call (events (fake_env []) svc_opts world0) = [] \<and>
   minio_New (fake_env archive_only_store) (endpoint svc_opts) (id' svc_opts) (key svc_opts) True
     = Inr (fake_client archive_only_store) \<and>
   fetched (fake_client archive_only_store) (bucket svc_opts) (tarKey svc_opts)
     = Some (bytes_of_string ''hello'') \<and>
   sha svc_opts = '''' \<and>
   fetched (fake_client archive_only_store) (bucket svc_opts) (checksumKey svc_opts) = None \<and>
   fst (run (fake_env archive_only_store) svc_opts world0)
     = Returns (Some (Errorf ''Can't download checksum from releases/svc_v1.0.0_linux_amd64.sha256'')) \<and>
   filter is_store_call (events (fake_env archive_only_store) svc_opts world0)
     = [StoreGet ''releases'' ''svc_v1.0.0_linux_amd64.tar.gz'',
        StoreGet ''releases'' ''svc_v1.0.0_linux_amd64.sha256''] \<and>
   Stdout ''## PASS\<newline>\<newline>'' \<notin> set (events (fake_env archive_only_store) svc_opts world0) \<and>
   files (snd (run (fake_env archive_only_store) svc_opts world0)) = files world0 \<and>
   filter is_fs_call (events (fake_env archive_only_store) svc_opts world0) = []"
proof -
  have b: "bucket svc_opts = ''releases''"
    by (simp add: svc_opts_def)
  have a1: "minio_New (fake_env []) (endpoint svc_opts) (id' svc_opts) (key svc_opts) True
      = Inr (fake_client [])"
    by (rule svc_New)
  have a2: "fetched (fake_client []) (bucket svc_opts) (tarKey svc_opts) = None"
    by (simp add: fetched_def fake_client_def)
  note ca = C10_errors_before_pass [of "fake_env []" svc_opts world0]
  have a3: "fst (run (fake_env []) svc_opts world0)
      = Returns (Some (Errorf (''Can't download archive from '' @ bucket svc_opts @ ''/''
                                 @ tarKey svc_opts)))"
    and a4: "filter is_store_call (events (fake_env []) svc_opts world0)
      = [StoreGet (bucket svc_opts) (tarKey svc_opts)]"
    and a5: "Stdout ''## PASS\<newline>\<newline>'' \<notin> set (events (fake_env []) svc_opts world0)"
    using ca a1 a2 by blast+
  have a6: "files (snd (run (fake_env []) svc_opts world0)) = files world0"
    and a7: "filter is_fs_call (events (fake_env []) svc_opts world0) = []"
    using ca a5 by blast+
  have b1: "minio_New (fake_env archive_only_store) (endpoint svc_opts) (id' svc_opts)
      (key svc_opts) True = Inr (fake_client archive_only_store)"
    by (rule svc_New)
  have b2: "fetched (fake_client archive_only_store) (bucket svc_opts) (tarKey svc_opts)
      = Some (bytes_of_string ''hello'')"
    by (simp add: svc_tarKey b) (simp add: fetched_def fake_client_def archive_only_store_def)
  have b3: "sha svc_opts = ''''"
    by (simp add: svc_opts_def)
  have b4: "fetched (fake_client archive_only_store) (bucket svc_opts) (checksumKey svc_opts) = None"
    by (simp add: svc_checksumKey b) (simp add: fetched_def fake_client_def archive_only_store_def)
  note cb = C10_errors_before_pass [of "fake_env archive_only_store" svc_opts world0]
  have b5: "fst (run (fake_env archive_only_store) svc_opts world0)
      = Returns (Some (Errorf (''Can't download checksum from '' @ bucket svc_opts @ ''/''
                                 @ checksumKey svc_opts)))"
    and b6: "filter is_store_call (events (fake_env archive_only_store) svc_opts world0)
      = [StoreGet (bucket svc_opts) (tarKey svc_opts),
         StoreGet (bucket svc_opts) (checksumKey svc_opts)]"
    and b7: "Stdout ''## PASS\<newline>\<newline>'' \<notin> set (events (fake_env archive_only_store) svc_opts world0)"
    using cb b1 b2 b3 b4 by blast+
  have b8: "files (snd (run (fake_env archive_only_store) svc_opts world0)) = files world0"
    and b9: "filter is_fs_call (events (fake_env archive_only_store) svc_opts world0) = []"
    using cb b7 by blast+
  show ?thesis
    using a1 a2 a3 a4 a5 a6 a7 b1 b2 b3 b4 b5 b6 b7 b8 b9
    by (simp add: b svc_tarKey svc_checksumKey)
qed

end
